theory Spec2Isabelle
  imports Complex_Main "HOL-Library.Log_Nat"
begin

section \<open>Numbers\<close>

text \<open>
  The scroll-timing functions of \<^verbatim>\<open>scroll-timing-config.js\<close> and the scroll controller of
  \<^verbatim>\<open>section-builder.js\<close> compute with JavaScript numbers.  They are embedded with exact
  arithmetic on \<^typ>\<open>real\<close>: viewport heights, fade-zone fractions and the timing constants are
  reals, card counts and card indices are integers.  Infinities and NaN are outside this
  part of the model, and so is the rounding of doubles, except for the one function whose
  model takes the rounding as a parameter (see below).  \<^verbatim>\<open>Math.round\<close> rounds to the nearest integer with ties towards plus
  infinity, \<^verbatim>\<open>Math.ceil\<close> is the ceiling.
\<close>

definition Math_round :: "real \<Rightarrow> int" where
  "Math_round x = \<lfloor>x + 1 / 2\<rfloor>"

definition Math_ceil :: "real \<Rightarrow> int" where
  "Math_ceil x = \<lceil>x\<rceil>"

subsection \<open>Rounding to double precision\<close>

text \<open>
  A JavaScript number is an IEEE-754 double: every literal and the result of every
  arithmetic operation is rounded to the nearest number with a significand of 53 bits,
  ties to the even significand.  A ceiling is sensitive to that rounding, so the model of
  \<^verbatim>\<open>calculateSectionHeight\<close> takes the rounding as a parameter: \<open>exact\<close> is no rounding, and
  \<open>binary64\<close> is the rounding of doubles, for results of magnitude below \<open>2 ^ 1024\<close> (the
  overflow to infinity is not modelled).  \<open>exponent a\<close> is the integer \<open>e\<close> with
  \<open>2 ^ e \<le> a < 2 ^ (e + 1)\<close>, for a positive \<open>a\<close>; below \<open>2 ^ - 1022\<close> the doubles are spaced
  by \<open>2 ^ - 1074\<close>.
\<close>

definition exact :: "real \<Rightarrow> real" where
  "exact x = x"

definition pow2 :: "int \<Rightarrow> real" where
  "pow2 e = (if 0 \<le> e then 2 ^ nat e else 1 / 2 ^ nat (- e))"

definition exponent :: "real \<Rightarrow> int" where
  "exponent a = (if 1 \<le> a then bitlen \<lfloor>a\<rfloor> - 1 else - bitlen (\<lceil>1 / a\<rceil> - 1))"

definition roundEven :: "real \<Rightarrow> int" where
  "roundEven m =
     (let f = \<lfloor>m\<rfloor>; r = m - of_int f
      in if r < 1 / 2 then f else if r > 1 / 2 then f + 1 else if even f then f else f + 1)"

definition binary64 :: "real \<Rightarrow> real" where
  "binary64 x =
     (if x = 0 then 0
      else let a = \<bar>x\<bar>;
               e = max (exponent a) (- 1022);
               u = pow2 (e - 52);
               n = roundEven (a / u)
           in sgn x * of_int n * u)"

section \<open>Timing calculus (scroll-timing-config.js)\<close>

subsection \<open>The table \<^verbatim>\<open>SCROLL_TIMING\<close>\<close>

definition PANEL_READING_HOLD :: real where
  "PANEL_READING_HOLD = 1.2"

definition CARD_READING_HOLD :: real where
  "CARD_READING_HOLD = 0.2"

definition CARD_FADE_DISTANCE :: real where
  "CARD_FADE_DISTANCE = 0.08"

definition PANEL_FADE_IN :: real where
  "PANEL_FADE_IN = 0.3"

definition PANEL_FADE_OUT :: real where
  "PANEL_FADE_OUT = 0.3"

definition GREY_SPACE_BETWEEN :: real where
  "GREY_SPACE_BETWEEN = 0.75"

definition LAST_PANEL_EXTRA_HOLD :: real where
  "LAST_PANEL_EXTRA_HOLD = 0.2"

subsection \<open>\<^verbatim>\<open>calculateSectionHeight\<close>\<close>

text \<open>
  The argument is an options object whose three properties each have a default, used when
  the property is absent: \<^verbatim>\<open>{ cardCount = 0, isLastSection = false, fadeZone = 0.7 }\<close>.  A
  \<^verbatim>\<open>fadeZone\<close> that is present is a number already.
\<close>

record height_options =
  opt_cardCount :: "int option"
  opt_isLastSection :: "bool option"
  opt_fadeZone :: "real option"

text \<open>
  The loop \<^verbatim>\<open>for (let i = 0; i < cardCount; i++) { holdTime += CARD_FADE_DISTANCE;
  holdTime += CARD_READING_HOLD; }\<close>, with the loop counter and the accumulator as arguments.
\<close>

function cardLoop :: "(real \<Rightarrow> real) \<Rightarrow> int \<Rightarrow> int \<Rightarrow> real \<Rightarrow> real" where
  "cardLoop rnd i cardCount holdTime =
     (if i < cardCount
      then cardLoop rnd (i + 1) cardCount
             (rnd (rnd (holdTime + rnd CARD_FADE_DISTANCE) + rnd CARD_READING_HOLD))
      else holdTime)"
  by pat_completeness auto
termination
  by (relation "measure (\<lambda>(rnd, i, cardCount, holdTime). nat (cardCount - i))") auto

declare cardLoop.simps [simp del]

definition calculateSectionHeight :: "(real \<Rightarrow> real) \<Rightarrow> height_options \<Rightarrow> int" where
  "calculateSectionHeight rnd opts =
     (let cardCount = (case opt_cardCount opts of None \<Rightarrow> 0 | Some c \<Rightarrow> c);
          isLastSection = (case opt_isLastSection opts of None \<Rightarrow> False | Some b \<Rightarrow> b);
          fadeZone = (case opt_fadeZone opts of None \<Rightarrow> rnd 0.7 | Some f \<Rightarrow> f);
          holdTime0 = rnd PANEL_READING_HOLD;
          holdTime1 = (if cardCount > 0 then cardLoop rnd 0 cardCount holdTime0 else holdTime0);
          holdTime2 = (if isLastSection then rnd (holdTime1 + rnd LAST_PANEL_EXTRA_HOLD)
                       else holdTime1);
          totalHeight = rnd (rnd (rnd (2 * fadeZone) + rnd GREY_SPACE_BETWEEN) + holdTime2)
      in Math_ceil (rnd (totalHeight * 100)))"

text \<open>
  The hold time in the words of the specification: the base reading hold, plus, for each
  card, the card fade distance and the card reading hold, plus the extra hold of the last
  panel exactly when the section is the last one.
\<close>

definition holdTime_spec :: "int \<Rightarrow> bool \<Rightarrow> real" where
  "holdTime_spec cardCount isLastSection =
     PANEL_READING_HOLD
     + (\<Sum>i \<in> {0 ..< cardCount}. CARD_FADE_DISTANCE + CARD_READING_HOLD)
     + (if isLastSection then LAST_PANEL_EXTRA_HOLD else 0)"

subsection \<open>\<^verbatim>\<open>calculateCardThreshold\<close>\<close>

record card_threshold =
  threshold :: int
  fadeDistance :: int

text \<open>The local variable \<^verbatim>\<open>pixelThreshold\<close> as it stands before the rounding.\<close>

definition pixelThreshold :: "real \<Rightarrow> int \<Rightarrow> real" where
  "pixelThreshold windowHeight cardIndex =
     (let p0 = windowHeight * PANEL_READING_HOLD
      in if cardIndex > 0
         then p0 + windowHeight * ((CARD_FADE_DISTANCE + CARD_READING_HOLD) * of_int cardIndex)
         else p0)"

definition calculateCardThreshold :: "real \<Rightarrow> int \<Rightarrow> card_threshold" where
  "calculateCardThreshold windowHeight cardIndex =
     \<lparr> threshold = Math_round (pixelThreshold windowHeight cardIndex),
       fadeDistance = Math_round (windowHeight * CARD_FADE_DISTANCE) \<rparr>"

subsection \<open>\<^verbatim>\<open>calculateFadeZones\<close>\<close>

text \<open>The returned object \<^verbatim>\<open>{ holdZone, fadeZone }\<close>, both in pixels.\<close>

record fade_zones =
  holdZonePx :: real
  fadeZonePx :: real

definition calculateFadeZones :: "real \<Rightarrow> int \<Rightarrow> fade_zones" where
  "calculateFadeZones windowHeight cardCount =
     (let holdZoneVh0 = PANEL_READING_HOLD;
          holdZoneVh = (if cardCount > 0
                        then holdZoneVh0 + (CARD_FADE_DISTANCE + CARD_READING_HOLD) * of_int cardCount
                        else holdZoneVh0);
          fadeZoneVh = holdZoneVh + PANEL_FADE_OUT
      in \<lparr> holdZonePx = windowHeight * holdZoneVh, fadeZonePx = windowHeight * fadeZoneVh \<rparr>)"

section \<open>Scene schema (section-schema.js)\<close>

text \<open>
  A scene is a JavaScript object literal.  Each property that the validators test for
  presence is an \<^typ>\<open>'a option\<close>, \<^term>\<open>None\<close> standing for an absent (undefined) property;
  a present property has the type that the JSDoc typedefs declare for it.  The properties
  \<^verbatim>\<open>animation\<close>, \<^verbatim>\<open>opacity\<close> and \<^verbatim>\<open>config\<close> of a layer are read by the renderer only and are
  left out.
\<close>

record HeroConfig =
  hero_text :: "string option"
  hero_style :: "string option"
  hero_fontSize :: "string option"
  hero_color :: "string option"

record Position =
  pos_top :: "string option"
  pos_right :: "string option"
  pos_bottom :: "string option"
  pos_left :: "string option"

record Size =
  size_width :: "string option"
  size_height :: "string option"

record Layer =
  layer_type :: "string option"
  layer_z :: "real option"
  layer_color :: "string option"
  layer_src :: "string option"
  layer_position :: "Position option"
  layer_size :: "Size option"
  layer_renderer :: "string option"

record ScrollConfig =
  scroll_height :: "string option"
  scroll_fadeZone :: "real option"

record Section =
  sec_id :: "string option"
  sec_hero :: "HeroConfig option"
  sec_layers :: "Layer list option"
  sec_scroll :: "ScrollConfig option"

record SectionSchema =
  sections :: "Section list option"

text \<open>Truthiness of an optional string: absent and the empty string are falsy.\<close>

definition truthy :: "string option \<Rightarrow> bool" where
  "truthy v = (case v of None \<Rightarrow> False | Some s \<Rightarrow> s \<noteq> [])"

subsection \<open>\<^verbatim>\<open>validateSchema\<close>\<close>

text \<open>
  The error messages, one constructor for each template literal of the source, carrying
  the interpolated values:
  \<^item> \<open>NoSectionsArray\<close>: \<^verbatim>\<open>Schema must have a "sections" array\<close>
  \<^item> \<open>MissingId idx\<close>: \<^verbatim>\<open>Section ${idx}: missing id\<close>
  \<^item> \<open>MissingHero idx\<close>: \<^verbatim>\<open>Section ${idx}: missing hero config\<close>
  \<^item> \<open>HeroMissingText idx\<close>: \<^verbatim>\<open>Section ${idx}: hero missing text\<close>
  \<^item> \<open>MissingLayers idx\<close>: \<^verbatim>\<open>Section ${idx}: missing or invalid layers array\<close>
  \<^item> \<open>ZIndexExceeds idx layerIdx z\<close>:
    \<^verbatim>\<open>Section ${idx}, layer ${layerIdx}: z-index ${layer.z} exceeds max of 50 (hero zone protection)\<close>
  \<^item> \<open>InvalidLayerType idx layerIdx type\<close>:
    \<^verbatim>\<open>Section ${idx}, layer ${layerIdx}: invalid layer type "${layer.type}"\<close>
  \<^item> \<open>ImageMissingSrc idx layerIdx\<close>: \<^verbatim>\<open>Section ${idx}, layer ${layerIdx}: image layer missing src\<close>
  \<^item> \<open>CustomMissingRenderer idx layerIdx\<close>:
    \<^verbatim>\<open>Section ${idx}, layer ${layerIdx}: custom layer missing renderer name\<close>
\<close>

datatype schema_error =
    NoSectionsArray
  | MissingId nat
  | MissingHero nat
  | HeroMissingText nat
  | MissingLayers nat
  | ZIndexExceeds nat nat real
  | InvalidLayerType nat nat "string option"
  | ImageMissingSrc nat nat
  | CustomMissingRenderer nat nat

record validation_result =
  valid :: bool
  errors :: "schema_error list"

text \<open>
  The body of the inner \<^verbatim>\<open>forEach\<close>: the errors pushed for the layer at index \<open>layerIdx\<close> of
  the section at index \<open>idx\<close>, in the order of the pushes.  \<^verbatim>\<open>layer.z > 50\<close> is false when
  \<^verbatim>\<open>z\<close> is absent.
\<close>

definition validateLayer :: "nat \<Rightarrow> nat \<Rightarrow> Layer \<Rightarrow> schema_error list" where
  "validateLayer idx layerIdx l =
     (case layer_z l of
        None \<Rightarrow> []
      | Some z \<Rightarrow> if z > 50 then [ZIndexExceeds idx layerIdx z] else [])
     @ (if layer_type l \<notin> {Some ''background'', Some ''image'', Some ''custom''}
        then [InvalidLayerType idx layerIdx (layer_type l)] else [])
     @ (if layer_type l = Some ''image'' \<and> \<not> truthy (layer_src l)
        then [ImageMissingSrc idx layerIdx] else [])
     @ (if layer_type l = Some ''custom'' \<and> \<not> truthy (layer_renderer l)
        then [CustomMissingRenderer idx layerIdx] else [])"

fun validateLayers :: "nat \<Rightarrow> nat \<Rightarrow> Layer list \<Rightarrow> schema_error list" where
  "validateLayers idx layerIdx [] = []"
| "validateLayers idx layerIdx (l # ls) =
     validateLayer idx layerIdx l @ validateLayers idx (Suc layerIdx) ls"

text \<open>The body of the outer \<^verbatim>\<open>forEach\<close>: the errors pushed for the section at index \<open>idx\<close>.\<close>

definition validateSection :: "nat \<Rightarrow> Section \<Rightarrow> schema_error list" where
  "validateSection idx s =
     (if \<not> truthy (sec_id s) then [MissingId idx] else [])
     @ (if sec_hero s = None then [MissingHero idx] else [])
     @ (if \<not> truthy (case sec_hero s of None \<Rightarrow> None | Some h \<Rightarrow> hero_text h)
        then [HeroMissingText idx] else [])
     @ (if sec_layers s = None then [MissingLayers idx] else [])
     @ (case sec_layers s of None \<Rightarrow> [] | Some ls \<Rightarrow> validateLayers idx 0 ls)"

fun validateSections :: "nat \<Rightarrow> Section list \<Rightarrow> schema_error list" where
  "validateSections idx [] = []"
| "validateSections idx (s # ss) = validateSection idx s @ validateSections (Suc idx) ss"

definition validateSchema :: "SectionSchema \<Rightarrow> validation_result" where
  "validateSchema schema =
     (case sections schema of
        None \<Rightarrow> \<lparr> valid = False, errors = [NoSectionsArray] \<rparr>
      | Some secs \<Rightarrow>
          (let errs = validateSections 0 secs
           in \<lparr> valid = (length errs = 0), errors = errs \<rparr>))"

text \<open>
  For the statements about the validator: the declared depth of the layer at index
  \<open>layerIdx\<close> of the section at index \<open>idx\<close>, when the scene has such a layer and the layer
  declares \<^verbatim>\<open>z\<close>; and the test whether an error is the depth error of that layer.
\<close>

definition layerAt :: "SectionSchema \<Rightarrow> nat \<Rightarrow> nat \<Rightarrow> Layer option" where
  "layerAt schema idx layerIdx =
     (case sections schema of
        None \<Rightarrow> None
      | Some secs \<Rightarrow>
          if idx < length secs
          then (case sec_layers (secs ! idx) of
                  None \<Rightarrow> None
                | Some ls \<Rightarrow> if layerIdx < length ls then Some (ls ! layerIdx) else None)
          else None)"

fun isDepthErrorOf :: "nat \<Rightarrow> nat \<Rightarrow> schema_error \<Rightarrow> bool" where
  "isDepthErrorOf idx layerIdx (ZIndexExceeds i j z) = (i = idx \<and> j = layerIdx)"
| "isDepthErrorOf idx layerIdx _ = False"

text \<open>The depth error that \<open>validateLayer\<close> pushes for a layer, if any.\<close>

definition depthErrors :: "nat \<Rightarrow> nat \<Rightarrow> Layer \<Rightarrow> schema_error list" where
  "depthErrors idx layerIdx l =
     (case layer_z l of
        None \<Rightarrow> []
      | Some z \<Rightarrow> if z > 50 then [ZIndexExceeds idx layerIdx z] else [])"

subsection \<open>Example scenes\<close>

text \<open>
  The first section of \<^verbatim>\<open>exampleSchema\<close> (the markup around the rotating word of its hero
  text left out), with its layers as a parameter, the scene made of that section alone, and
  the section's two layers: the background and the ship image, the latter with its \<^verbatim>\<open>z\<close>,
  \<^verbatim>\<open>position\<close> and \<^verbatim>\<open>size\<close> as parameters.
\<close>

definition exampleHero :: HeroConfig where
  "exampleHero =
     \<lparr> hero_text = Some ''Tools like Lovable<br>are great for building simple apps.'',
       hero_style = Some ''center'', hero_fontSize = None, hero_color = None \<rparr>"

definition sectionOf :: "Layer list \<Rightarrow> Section" where
  "sectionOf ls =
     \<lparr> sec_id = Some ''section-00'',
       sec_hero = Some exampleHero,
       sec_layers = Some ls,
       sec_scroll = Some \<lparr> scroll_height = Some ''335vh'', scroll_fadeZone = Some 0.7 \<rparr> \<rparr>"

definition sceneOf :: "Layer list \<Rightarrow> SectionSchema" where
  "sceneOf ls = \<lparr> sections = Some [sectionOf ls] \<rparr>"

definition backgroundLayer :: Layer where
  "backgroundLayer =
     \<lparr> layer_type = Some ''background'', layer_z = Some 0, layer_color = Some ''#E8EBED'',
       layer_src = None, layer_position = None, layer_size = None, layer_renderer = None \<rparr>"

definition shipLayer :: "real option \<Rightarrow> Position option \<Rightarrow> Size option \<Rightarrow> Layer" where
  "shipLayer z p sz =
     \<lparr> layer_type = Some ''image'', layer_z = z, layer_color = None,
       layer_src = Some ''ship-images/paper-ship-square.png'', layer_position = p,
       layer_size = sz, layer_renderer = None \<rparr>"

section \<open>Overlap detector (section-validator.js)\<close>

subsection \<open>Numbers that may be NaN\<close>

text \<open>
  The overlap detector parses the CSS strings of a scene with \<^verbatim>\<open>parseFloat\<close>, which yields
  NaN on a string such as \<^verbatim>\<open>'auto'\<close> (the \<^verbatim>\<open>height\<close> of the image layers of
  \<^verbatim>\<open>exampleSchema\<close>).  Its numbers are therefore a real or NaN: arithmetic propagates NaN, and
  every comparison with NaN is false.  Arithmetic on the reals is exact, and infinities are
  not modelled; the only divisors of the source are the literals 100 and 2.
\<close>

datatype number = NaN | Num real

fun num_add :: "number \<Rightarrow> number \<Rightarrow> number" where
  "num_add (Num a) (Num b) = Num (a + b)"
| "num_add _ _ = NaN"

fun num_sub :: "number \<Rightarrow> number \<Rightarrow> number" where
  "num_sub (Num a) (Num b) = Num (a - b)"
| "num_sub _ _ = NaN"

fun num_mul :: "number \<Rightarrow> number \<Rightarrow> number" where
  "num_mul (Num a) (Num b) = Num (a * b)"
| "num_mul _ _ = NaN"

fun num_div :: "number \<Rightarrow> number \<Rightarrow> number" where
  "num_div (Num a) (Num b) = Num (a / b)"
| "num_div _ _ = NaN"

fun num_lt :: "number \<Rightarrow> number \<Rightarrow> bool" where
  "num_lt (Num a) (Num b) = (a < b)"
| "num_lt _ _ = False"

fun num_gt :: "number \<Rightarrow> number \<Rightarrow> bool" where
  "num_gt (Num a) (Num b) = (a > b)"
| "num_gt _ _ = False"

text \<open>
  What the functions read from the browser: the viewport (\<^verbatim>\<open>window.innerWidth\<close>,
  \<^verbatim>\<open>window.innerHeight\<close>), the built-in \<^verbatim>\<open>parseFloat\<close>, and the regular-expression engine
  applied to \<^verbatim>\<open>/clamp\([^,]+,\s*([^,]+),/\<close>: \<open>matchClamp\<close> gives the first capture group of the
  first match, or \<open>None\<close> when there is no match.
\<close>

record browser =
  innerWidth :: real
  innerHeight :: real
  parseFloat :: "string \<Rightarrow> number"
  matchClamp :: "string \<Rightarrow> string option"

subsection \<open>String methods\<close>

definition endsWith :: "string \<Rightarrow> string \<Rightarrow> bool" where
  "endsWith s suf = (length suf \<le> length s \<and> drop (length s - length suf) s = suf)"

fun str_includes :: "string \<Rightarrow> string \<Rightarrow> bool" where
  "str_includes [] sub = (sub = [])"
| "str_includes (c # cs) sub = (take (length sub) (c # cs) = sub \<or> str_includes cs sub)"

text \<open>
  \<^verbatim>\<open>(text.match(/<br>/g) || []).length\<close>: the number of occurrences of \<^verbatim>\<open><br>\<close>, which cannot
  overlap one another.
\<close>

fun countBr :: "string \<Rightarrow> nat" where
  "countBr [] = 0"
| "countBr (c # cs) = (if take 4 (c # cs) = ''<br>'' then 1 else 0) + countBr cs"

subsection \<open>Bounding boxes\<close>

record box =
  box_top :: number
  box_right :: number
  box_bottom :: number
  box_left :: number
  box_width :: number
  box_height :: number

datatype js_error = TypeError

text \<open>
  \<^verbatim>\<open>calculateHeroBounds\<close> raises a \<^verbatim>\<open>TypeError\<close> when \<^verbatim>\<open>heroConfig.text\<close> is absent
  (\<^verbatim>\<open>undefined.match\<close>).
\<close>

definition calculateHeroBounds :: "browser \<Rightarrow> HeroConfig \<Rightarrow> js_error + box" where
  "calculateHeroBounds w heroConfig =
     (let viewportWidth = innerWidth w;
          viewportHeight = innerHeight w;
          maxWidth = 1000;
          padding = 40;
          fontSize = (if truthy (hero_fontSize heroConfig) then the (hero_fontSize heroConfig)
                      else ''clamp(2.5rem, 6vw, 5rem)'')
      in case hero_text heroConfig of
           None \<Rightarrow> Inl TypeError
         | Some text \<Rightarrow>
            (let lineCount = countBr text + 1;
                 estimatedFontSize =
                   (if str_includes fontSize ''clamp''
                    then (case matchClamp w fontSize of
                            None \<Rightarrow> Num 80
                          | Some m \<Rightarrow>
                              (let vwValue = parseFloat w m
                               in num_div (num_mul (Num viewportWidth) vwValue) (Num 100)))
                    else Num 80);
                 lineHeight = num_mul estimatedFontSize (Num 1.2);
                 estimatedHeight = num_mul (Num (of_nat lineCount)) lineHeight;
                 containerWidth = Num (min (maxWidth + (padding * 2)) viewportWidth);
                 containerHeight = num_add estimatedHeight (Num (padding * 2))
             in Inr \<lparr> box_top = num_sub (Num (viewportHeight / 2)) (num_div containerHeight (Num 2)),
                      box_right = num_add (Num (viewportWidth / 2)) (num_div containerWidth (Num 2)),
                      box_bottom = num_add (Num (viewportHeight / 2)) (num_div containerHeight (Num 2)),
                      box_left = num_sub (Num (viewportWidth / 2)) (num_div containerWidth (Num 2)),
                      box_width = containerWidth,
                      box_height = containerHeight \<rparr>))"

text \<open>
  \<^verbatim>\<open>parsePosition\<close> returns \<^verbatim>\<open>null\<close> (here \<open>None\<close>) for a falsy value, and a number otherwise.
\<close>

definition parsePosition :: "browser \<Rightarrow> string option \<Rightarrow> real \<Rightarrow> number option" where
  "parsePosition w v containerSize =
     (if \<not> truthy v then None
      else let s = the v in
        if endsWith s ''%'' then Some (num_mul (num_div (parseFloat w s) (Num 100)) (Num containerSize))
        else if endsWith s ''px'' then Some (parseFloat w s)
        else if endsWith s ''vh'' then Some (num_mul (num_div (parseFloat w s) (Num 100)) (Num (innerHeight w)))
        else if endsWith s ''vw'' then Some (num_mul (num_div (parseFloat w s) (Num 100)) (Num (innerWidth w)))
        else Some (parseFloat w s))"

text \<open>
  The object \<^verbatim>\<open>bounds\<close> of \<^verbatim>\<open>calculateImageBounds\<close> while it is filled in: its four edges are
  absent until assigned.
\<close>

record bounds =
  b_width :: number
  b_height :: number
  b_top :: "number option"
  b_bottom :: "number option"
  b_left :: "number option"
  b_right :: "number option"

text \<open>
  An operand that is \<^verbatim>\<open>null\<close> counts as 0 in arithmetic and one that is \<^verbatim>\<open>undefined\<close> as NaN.
  Neither occurs where the source computes: \<open>width\<close> and \<open>height\<close> are parsed from truthy
  strings, and \<^verbatim>\<open>bounds.bottom\<close> and \<^verbatim>\<open>bounds.right\<close> are assigned before they are read.
\<close>

definition ofNull :: "number option \<Rightarrow> number" where
  "ofNull v = (case v of None \<Rightarrow> Num 0 | Some x \<Rightarrow> x)"

definition ofUndefined :: "number option \<Rightarrow> number" where
  "ofUndefined v = (case v of None \<Rightarrow> NaN | Some x \<Rightarrow> x)"

definition toBox :: "bounds \<Rightarrow> box" where
  "toBox b =
     \<lparr> box_top = ofUndefined (b_top b), box_right = ofUndefined (b_right b),
       box_bottom = ofUndefined (b_bottom b), box_left = ofUndefined (b_left b),
       box_width = b_width b, box_height = b_height b \<rparr>"

text \<open>
  The four conditional assignments of \<^verbatim>\<open>calculateImageBounds\<close>, in their order: \<^verbatim>\<open>top\<close>,
  \<^verbatim>\<open>bottom\<close>, \<^verbatim>\<open>left\<close>, \<^verbatim>\<open>right\<close>, each \<^verbatim>\<open>null\<close> (here \<open>None\<close>) or a number.
\<close>

definition assignEdges ::
  "real \<Rightarrow> real \<Rightarrow> number \<Rightarrow> number \<Rightarrow>
   number option \<Rightarrow> number option \<Rightarrow> number option \<Rightarrow> number option \<Rightarrow> bounds" where
  "assignEdges viewportWidth viewportHeight width height topEdge bottomEdge leftEdge rightEdge =
     (let bounds0 = \<lparr> b_width = width, b_height = height, b_top = None, b_bottom = None,
                      b_left = None, b_right = None \<rparr>;
          bounds1 = (case topEdge of None \<Rightarrow> bounds0
                     | Some t \<Rightarrow> bounds0 \<lparr> b_top := Some t, b_bottom := Some (num_add t height) \<rparr>);
          bounds2 = (case bottomEdge of None \<Rightarrow> bounds1
                     | Some b \<Rightarrow>
                         (let bb = num_sub (Num viewportHeight) b
                          in bounds1 \<lparr> b_bottom := Some bb, b_top := Some (num_sub bb height) \<rparr>));
          bounds3 = (case leftEdge of None \<Rightarrow> bounds2
                     | Some l \<Rightarrow> bounds2 \<lparr> b_left := Some l, b_right := Some (num_add l width) \<rparr>);
          bounds4 = (case rightEdge of None \<Rightarrow> bounds3
                     | Some r \<Rightarrow>
                         (let br = num_sub (Num viewportWidth) r
                          in bounds3 \<lparr> b_right := Some br, b_left := Some (num_sub br width) \<rparr>))
      in bounds4)"

text \<open>
  \<^verbatim>\<open>calculateImageBounds\<close> is private to its module and is called only on a layer whose
  \<^verbatim>\<open>position\<close> is present; it takes that position and the layer's optional \<^verbatim>\<open>size\<close>.
\<close>

definition calculateImageBounds :: "browser \<Rightarrow> Position \<Rightarrow> Size option \<Rightarrow> box option" where
  "calculateImageBounds w p sz =
     (let viewportWidth = innerWidth w;
          viewportHeight = innerHeight w;
          topEdge = (if truthy (pos_top p) then parsePosition w (pos_top p) viewportHeight else None);
          leftEdge = (if truthy (pos_left p) then parsePosition w (pos_left p) viewportWidth else None);
          rightEdge = (if truthy (pos_right p) then parsePosition w (pos_right p) viewportWidth else None);
          bottomEdge = (if truthy (pos_bottom p) then parsePosition w (pos_bottom p) viewportHeight else None);
          szWidth = (case sz of None \<Rightarrow> None | Some z \<Rightarrow> size_width z);
          szHeight = (case sz of None \<Rightarrow> None | Some z \<Rightarrow> size_height z);
          width = (if truthy szWidth then ofNull (parsePosition w szWidth viewportWidth) else Num 100);
          height = (if truthy szHeight then ofNull (parsePosition w szHeight viewportHeight) else Num 100);
          bounds = assignEdges viewportWidth viewportHeight width height
                     topEdge bottomEdge leftEdge rightEdge
      in if b_top bounds \<noteq> None \<and> b_left bounds \<noteq> None then Some (toBox bounds) else None)"

definition boxesOverlap :: "box \<Rightarrow> box \<Rightarrow> bool" where
  "boxesOverlap box1 box2 =
     (\<not> (num_lt (box_right box1) (box_left box2) \<or>
         num_gt (box_left box1) (box_right box2) \<or>
         num_lt (box_bottom box1) (box_top box2) \<or>
         num_gt (box_top box1) (box_bottom box2)))"

subsection \<open>\<^verbatim>\<open>validateHeroOverlap\<close>\<close>

text \<open>
  The warnings, one constructor for each of the two messages:
  \<^item> \<open>OverlapWarning idx src heroBounds imageBounds\<close>: \<^verbatim>\<open>Layer ${idx} (image: ${layer.src}) may
    overlap hero text. Hero bounds: {...}. Image bounds: {...}\<close>, which prints the rounded
    edges of the two boxes;
  \<^item> \<open>CustomWarning idx renderer\<close>: \<^verbatim>\<open>Layer ${idx} (custom: ${layer.renderer}) cannot be
    validated automatically. Ensure custom renderer respects hero zone bounds.\<close>
\<close>

datatype overlap_warning =
    OverlapWarning nat "string option" box box
  | CustomWarning nat "string option"

record overlap_result =
  ov_valid :: bool
  warnings :: "overlap_warning list"

text \<open>The body of the \<^verbatim>\<open>forEach\<close>: the warnings pushed for the layer at index \<open>idx\<close>.\<close>

definition checkLayer :: "browser \<Rightarrow> box \<Rightarrow> nat \<Rightarrow> Layer \<Rightarrow> overlap_warning list" where
  "checkLayer w heroBounds idx l =
     (if layer_type l = Some ''image'' \<and> layer_position l \<noteq> None
      then (case calculateImageBounds w (the (layer_position l)) (layer_size l) of
              None \<Rightarrow> []
            | Some imageBounds \<Rightarrow>
                if boxesOverlap heroBounds imageBounds
                then [OverlapWarning idx (layer_src l) heroBounds imageBounds]
                else [])
      else [])
     @ (if layer_type l = Some ''custom'' then [CustomWarning idx (layer_renderer l)] else [])"

fun checkLayers :: "browser \<Rightarrow> box \<Rightarrow> nat \<Rightarrow> Layer list \<Rightarrow> overlap_warning list" where
  "checkLayers w heroBounds idx [] = []"
| "checkLayers w heroBounds idx (l # ls) =
     checkLayer w heroBounds idx l @ checkLayers w heroBounds (Suc idx) ls"

text \<open>
  \<^verbatim>\<open>validateHeroOverlap\<close> raises a \<^verbatim>\<open>TypeError\<close> when \<^verbatim>\<open>section.hero\<close>, its \<^verbatim>\<open>text\<close> or
  \<^verbatim>\<open>section.layers\<close> is absent.
\<close>

definition validateHeroOverlap :: "browser \<Rightarrow> Section \<Rightarrow> js_error + overlap_result" where
  "validateHeroOverlap w s =
     (case sec_hero s of
        None \<Rightarrow> Inl TypeError
      | Some hero \<Rightarrow>
         (case calculateHeroBounds w hero of
            Inl e \<Rightarrow> Inl e
          | Inr heroBounds \<Rightarrow>
             (case sec_layers s of
                None \<Rightarrow> Inl TypeError
              | Some ls \<Rightarrow>
                 (let ws = checkLayers w heroBounds 0 ls
                  in Inr \<lparr> ov_valid = (length ws = 0), warnings = ws \<rparr>))))"

fun isOverlapWarningOf :: "nat \<Rightarrow> overlap_warning \<Rightarrow> bool" where
  "isOverlapWarningOf idx (OverlapWarning i src hb ib) = (i = idx)"
| "isOverlapWarningOf idx (CustomWarning i r) = False"

text \<open>
  For the statements about the detector: whether a position declares a vertical edge
  (\<^verbatim>\<open>top\<close> or \<^verbatim>\<open>bottom\<close>), and whether it declares a horizontal edge (\<^verbatim>\<open>left\<close> or \<^verbatim>\<open>right\<close>).
\<close>

definition verticalEdge :: "Position \<Rightarrow> bool" where
  "verticalEdge p = (truthy (pos_top p) \<or> truthy (pos_bottom p))"

definition horizontalEdge :: "Position \<Rightarrow> bool" where
  "horizontalEdge p = (truthy (pos_left p) \<or> truthy (pos_right p))"

text \<open>
  A browser with a viewport of 1200 by 800 pixels, with the values of \<^verbatim>\<open>parseFloat\<close> and of the
  regular-expression match on the strings of the example scenes.
\<close>

definition exampleBrowser :: browser where
  "exampleBrowser =
     \<lparr> innerWidth = 1200, innerHeight = 800,
       parseFloat = (\<lambda>s. if s = ''40%'' then Num 40 else if s = ''50%'' then Num 50
                          else if s = ''5%'' then Num 5
                          else if s = ''25vw'' then Num 25 else if s = ''6vw'' then Num 6
                          else NaN),
       matchClamp = (\<lambda>s. if s = ''clamp(2.5rem, 6vw, 5rem)'' then Some ''6vw'' else None) \<rparr>"

section \<open>Scroll visibility controller (section-builder.js)\<close>

subsection \<open>\<^verbatim>\<open>buildSection\<close>\<close>

text \<open>
  Of \<^verbatim>\<open>buildSection\<close> the model keeps the section container that it returns: its \<^verbatim>\<open>id\<close> and
  the \<^verbatim>\<open>height\<close> of its style, \<^verbatim>\<open>section.scroll?.height || '250vh'\<close>.  The layer elements and
  the hero container that it appends to the document body are not modelled.  It raises a
  \<^verbatim>\<open>TypeError\<close> when \<^verbatim>\<open>section.layers\<close> or \<^verbatim>\<open>section.hero\<close> is absent.
\<close>

record section_element =
  el_id :: "string option"
  el_height :: string

definition buildSection :: "Section \<Rightarrow> js_error + section_element" where
  "buildSection s =
     (let sectionContainer =
            \<lparr> el_id = sec_id s,
              el_height =
                (let h = (case sec_scroll s of None \<Rightarrow> None | Some sc \<Rightarrow> scroll_height sc)
                 in if truthy h then the h else ''250vh'') \<rparr>
      in case sec_layers s of
           None \<Rightarrow> Inl TypeError
         | Some ls \<Rightarrow> (case sec_hero s of None \<Rightarrow> Inl TypeError | Some hero \<Rightarrow> Inr sectionContainer))"

subsection \<open>\<^verbatim>\<open>updateSectionOpacity\<close>\<close>

text \<open>
  The state that a tick reads and writes for one section: the inline \<^verbatim>\<open>display\<close> and
  \<^verbatim>\<open>opacity\<close> that the section's background, content container and images all receive, and
  its visual containers.  A visual container has its own \<^verbatim>\<open>display\<close> and \<^verbatim>\<open>opacity\<close>; when it
  has the class \<^verbatim>\<open>challenge-cards\<close> it carries the flag \<^verbatim>\<open>dataset.animationTriggered\<close> (unset or
  the empty string is \<open>False\<close>, \<^verbatim>\<open>'true'\<close> is \<open>True\<close>) and the classes \<^verbatim>\<open>section-active\<close> and
  \<^verbatim>\<open>cards-exit\<close>.  \<open>exitTimers\<close> counts the calls of \<^verbatim>\<open>setTimeout(..., 4600)\<close> made for the
  container; the firing of a timer, which adds the class \<^verbatim>\<open>cards-exit\<close>, is not modelled.
  Neither is the fade-in of the comparison container, which the tick computes from the
  last section before it visits the sections.
\<close>

datatype display = DisplayUnset | DisplayNone | DisplayBlock

record visual =
  vis_challengeCards :: bool
  vis_display :: display
  vis_opacity :: real
  animationTriggered :: bool
  sectionActive :: bool
  cardsExit :: bool
  exitTimers :: nat

record section_dom =
  dom_display :: display
  dom_opacity :: real
  dom_visuals :: "visual list"

text \<open>The result of \<^verbatim>\<open>section.getBoundingClientRect()\<close>.\<close>

record client_rect =
  rect_top :: real
  rect_bottom :: real
  rect_height :: real

text \<open>
  The locals \<^verbatim>\<open>holdZone\<close> and \<^verbatim>\<open>sectionFadeZone\<close> that the callback of \<^verbatim>\<open>sections.forEach\<close>
  computes for the section element \<open>el\<close>; \<open>fadeZone\<close> is the parameter of
  \<^verbatim>\<open>setupScrollBehavior\<close>.
\<close>

definition sectionZones :: "real \<Rightarrow> real \<Rightarrow> section_element \<Rightarrow> fade_zones" where
  "sectionZones windowHeight fadeZone el =
     (let sectionFadeZone = windowHeight * fadeZone;
          holdZone = windowHeight * 0.4
      in \<lparr> holdZonePx = holdZone, fadeZonePx = sectionFadeZone \<rparr>)"

definition sectionDistance :: "real \<Rightarrow> client_rect \<Rightarrow> real" where
  "sectionDistance windowHeight rect =
     (let sectionCenter = rect_top rect + (rect_height rect / 2);
          viewportCenter = windowHeight / 2
      in \<bar>sectionCenter - viewportCenter\<bar>)"

definition opacityOf :: "real \<Rightarrow> real \<Rightarrow> real \<Rightarrow> real" where
  "opacityOf holdZone sectionFadeZone distance =
     (if distance < holdZone then 1
      else if distance < sectionFadeZone
           then 1 - ((distance - holdZone) / (sectionFadeZone - holdZone))
           else 0)"

text \<open>The callback of \<^verbatim>\<open>sectionVisuals.forEach\<close>, for the section's opacity of this tick.\<close>

definition updateVisual :: "real \<Rightarrow> visual \<Rightarrow> visual" where
  "updateVisual opacity vis =
     (if vis_challengeCards vis
      then (let vis1 = (if opacity \<ge> 1 \<and> \<not> animationTriggered vis
                        then vis \<lparr> animationTriggered := True, sectionActive := True,
                                   exitTimers := exitTimers vis + 1 \<rparr>
                        else vis);
                vis2 = (if opacity < 0.5 \<and> animationTriggered vis1
                        then vis1 \<lparr> animationTriggered := False, sectionActive := False,
                                    cardsExit := False \<rparr>
                        else vis1)
            in vis2)
      else vis \<lparr> vis_opacity := max 0 (min 1 opacity) \<rparr>)"

text \<open>The callback of \<^verbatim>\<open>sections.forEach\<close>: one tick for one section.\<close>

definition updateSection ::
  "real \<Rightarrow> real \<Rightarrow> section_element \<Rightarrow> client_rect \<Rightarrow> section_dom \<Rightarrow> section_dom" where
  "updateSection windowHeight fadeZone el rect st =
     (if rect_bottom rect < 0 \<or> rect_top rect > windowHeight
      then st \<lparr> dom_display := DisplayNone,
                 dom_visuals := map (\<lambda>vis. vis \<lparr> vis_display := DisplayNone \<rparr>) (dom_visuals st) \<rparr>
      else (let distance = sectionDistance windowHeight rect;
                zones = sectionZones windowHeight fadeZone el;
                opacity = opacityOf (holdZonePx zones) (fadeZonePx zones) distance
            in st \<lparr> dom_display := DisplayBlock,
                     dom_opacity := max 0 (min 1 opacity),
                     dom_visuals :=
                       map (\<lambda>vis. updateVisual opacity (vis \<lparr> vis_display := DisplayBlock \<rparr>))
                         (dom_visuals st) \<rparr>))"

text \<open>A sequence of ticks of one visual container, given the section's opacity at each.\<close>

fun runVisual :: "real list \<Rightarrow> visual \<Rightarrow> visual" where
  "runVisual [] vis = vis"
| "runVisual (opacity # rest) vis = runVisual rest (updateVisual opacity vis)"

text \<open>The zones that the section's own \<^verbatim>\<open>scroll.fadeZone\<close> declares, for comparison.\<close>

definition declaredFadeZonePx :: "real \<Rightarrow> Section \<Rightarrow> real option" where
  "declaredFadeZonePx windowHeight s =
     (case sec_scroll s of
        None \<Rightarrow> None
      | Some sc \<Rightarrow> (case scroll_fadeZone sc of None \<Rightarrow> None | Some f \<Rightarrow> Some (windowHeight * f)))"

subsection \<open>Example inputs\<close>

text \<open>
  The position and size of the ship image of \<^verbatim>\<open>exampleSchema\<close>, and a position that declares
  a horizontal edge only.
\<close>

definition shipPosition :: Position where
  "shipPosition =
     \<lparr> pos_top = Some ''40%'', pos_right = None, pos_bottom = None, pos_left = Some ''50%'' \<rparr>"

definition shipSize :: Size where
  "shipSize = \<lparr> size_width = Some ''25vw'', size_height = Some ''auto'' \<rparr>"

definition leftOnlyPosition :: Position where
  "leftOnlyPosition =
     \<lparr> pos_top = None, pos_right = None, pos_bottom = None, pos_left = Some ''50%'' \<rparr>"

text \<open>
  Three layers for the example section: its background, its ship image, and an image whose
  position declares no vertical edge.  In the example browser the hero text of the section
  has the box \<open>exampleHeroBox\<close> and the ship image the box \<open>shipBox\<close>, whose bottom edge is NaN
  because the height of the image is \<^verbatim>\<open>'auto'\<close>.
\<close>

definition exampleLayers :: "Layer list" where
  "exampleLayers =
     [backgroundLayer, shipLayer (Some 1) (Some shipPosition) (Some shipSize),
      shipLayer (Some 1) (Some leftOnlyPosition) None]"

definition exampleHeroBox :: box where
  "exampleHeroBox =
     \<lparr> box_top = Num (1368 / 5), box_right = Num 1140, box_bottom = Num (2632 / 5),
       box_left = Num 60, box_width = Num 1080, box_height = Num (1264 / 5) \<rparr>"

definition shipBox :: box where
  "shipBox =
     \<lparr> box_top = Num 320, box_right = Num 900, box_bottom = NaN, box_left = Num 600,
       box_width = Num 300, box_height = NaN \<rparr>"

text \<open>
  A challenge-cards container before its first tick, the container of the example section,
  the rectangle of a section of 2680 pixels whose centre is at the centre of a viewport of
  800 pixels, and two sections that differ in their declared \<^verbatim>\<open>scroll.fadeZone\<close> only.
\<close>

definition exampleCards :: visual where
  "exampleCards =
     \<lparr> vis_challengeCards = True, vis_display = DisplayUnset, vis_opacity = 0,
       animationTriggered = False, sectionActive = False, cardsExit = False, exitTimers = 0 \<rparr>"

definition exampleElement :: section_element where
  "exampleElement = \<lparr> el_id = Some ''section-00'', el_height = ''335vh'' \<rparr>"

definition centredRect :: client_rect where
  "centredRect = \<lparr> rect_top = - 940, rect_bottom = 1740, rect_height = 2680 \<rparr>"

definition sectionFade05 :: Section where
  "sectionFade05 =
     (sectionOf [backgroundLayer])
       \<lparr> sec_scroll := Some \<lparr> scroll_height = Some ''335vh'', scroll_fadeZone = Some 0.5 \<rparr> \<rparr>"

definition sectionFade09 :: Section where
  "sectionFade09 =
     (sectionOf [backgroundLayer])
       \<lparr> sec_scroll := Some \<lparr> scroll_height = Some ''335vh'', scroll_fadeZone = Some 0.9 \<rparr> \<rparr>"

section \<open>Properties of the timing calculus\<close>

lemmas SCROLL_TIMING_defs =
  PANEL_READING_HOLD_def CARD_READING_HOLD_def CARD_FADE_DISTANCE_def PANEL_FADE_IN_def
  PANEL_FADE_OUT_def GREY_SPACE_BETWEEN_def LAST_PANEL_EXTRA_HOLD_def

lemma cardLoop_closed:
  "i \<le> cardCount \<Longrightarrow>
   cardLoop exact i cardCount holdTime =
     holdTime + of_int (cardCount - i) * (CARD_FADE_DISTANCE + CARD_READING_HOLD)"
proof (induction "nat (cardCount - i)" arbitrary: i holdTime)
  case 0
  then have "i = cardCount" by simp
  then show ?case by (simp add: cardLoop.simps [of exact cardCount])
next
  case (Suc n)
  then have lt: "i < cardCount" and n: "n = nat (cardCount - (i + 1))" by simp_all
  from lt have "cardLoop exact i cardCount holdTime =
      cardLoop exact (i + 1) cardCount
        (exact (exact (holdTime + exact CARD_FADE_DISTANCE) + exact CARD_READING_HOLD))"
    by (subst cardLoop.simps) simp
  also have "\<dots> =
      cardLoop exact (i + 1) cardCount ((holdTime + CARD_FADE_DISTANCE) + CARD_READING_HOLD)"
    by (simp add: exact_def)
  also have "\<dots> = (holdTime + CARD_FADE_DISTANCE) + CARD_READING_HOLD
      + of_int (cardCount - (i + 1)) * (CARD_FADE_DISTANCE + CARD_READING_HOLD)"
    using Suc.hyps(1) [OF n] lt by simp
  also have "\<dots> = holdTime + of_int (cardCount - i) * (CARD_FADE_DISTANCE + CARD_READING_HOLD)"
    by (simp add: algebra_simps)
  finally show ?case .
qed

lemma holdTime_spec_closed:
  "0 \<le> c \<Longrightarrow> holdTime_spec c l =
     PANEL_READING_HOLD + of_int c * (CARD_FADE_DISTANCE + CARD_READING_HOLD)
     + (if l then LAST_PANEL_EXTRA_HOLD else 0)"
  by (simp add: holdTime_spec_def)

text \<open>
  In exact arithmetic \<open>calculateSectionHeight\<close> is the formula of the specification: for
  every card count \<open>cardCount \<ge> 0\<close>, every \<open>isLastSection\<close> and every \<open>fadeZone\<close> it returns the
  ceiling of \<open>(2 * fadeZone + GREY_SPACE_BETWEEN + holdTime) * 100\<close>, where \<open>holdTime\<close> is the
  reading hold of the panel, plus the fade distance and the reading hold of a card for each
  card, plus the extra hold of the last panel exactly when \<open>isLastSection\<close> is true.
\<close>

lemma calculateSectionHeight_exact:
  "0 \<le> cardCount \<Longrightarrow>
   calculateSectionHeight exact \<lparr> opt_cardCount = Some cardCount, opt_isLastSection = Some isLast,
                                  opt_fadeZone = Some fz \<rparr>
   = \<lceil>(2 * fz + GREY_SPACE_BETWEEN + holdTime_spec cardCount isLast) * 100\<rceil>"
proof (cases "cardCount = 0")
  case True
  then show ?thesis
    by (simp add: calculateSectionHeight_def holdTime_spec_def Math_ceil_def exact_def)
next
  case False
  assume "0 \<le> cardCount"
  with False have pos: "0 < cardCount" by simp
  have "cardLoop exact 0 cardCount PANEL_READING_HOLD =
      PANEL_READING_HOLD + of_int cardCount * (CARD_FADE_DISTANCE + CARD_READING_HOLD)"
    using cardLoop_closed [of 0 cardCount PANEL_READING_HOLD] pos by simp
  then show ?thesis
    using pos
    by (simp add: calculateSectionHeight_def holdTime_spec_closed Math_ceil_def exact_def)
qed

text \<open>
  The rounding \<open>binary64\<close>: \<open>exponent\<close> is the binary exponent of a positive number, and the
  rounded value is a multiple of the unit in the last place that differs from the argument
  by at most half that unit.
\<close>

lemma exponent_bounds:
  assumes "0 < a"
  shows "pow2 (exponent a) \<le> a \<and> a < pow2 (exponent a + 1)"
proof (cases "1 \<le> a")
  case True
  define n where "n = \<lfloor>a\<rfloor>"
  have n1: "1 \<le> n" using True by (simp add: n_def)
  then have n0: "0 < n" by simp
  have b1: "1 \<le> bitlen n" using n0 by (simp add: bitlen_alt_def)
  have lo: "2 ^ nat (bitlen n - 1) \<le> n" and hi: "n < 2 ^ nat (bitlen n)"
    using bitlen_bounds [OF n0] by simp_all
  have e: "exponent a = bitlen n - 1" using True by (simp add: exponent_def n_def)
  have "(2::real) ^ nat (bitlen n - 1) \<le> of_int n"
    using lo by (metis of_int_le_iff of_int_numeral of_int_power)
  also have "\<dots> \<le> a" by (simp add: n_def)
  finally have l: "pow2 (exponent a) \<le> a" using b1 by (simp add: e pow2_def)
  from hi have "n + 1 \<le> 2 ^ nat (bitlen n)" by simp
  then have "of_int (n + 1) \<le> (2::real) ^ nat (bitlen n)"
    by (metis of_int_le_iff of_int_numeral of_int_power)
  moreover have "a < of_int (n + 1)" by (simp add: n_def)
  ultimately have "a < 2 ^ nat (bitlen n)" by linarith
  then have u: "a < pow2 (exponent a + 1)" using b1 by (simp add: e pow2_def)
  from l u show ?thesis ..
next
  case False
  then have a1: "a < 1" by simp
  define m where "m = \<lceil>1 / a\<rceil>"
  define k where "k = bitlen (m - 1)"
  have y: "1 < 1 / a" using assms a1 by simp
  then have m2: "2 \<le> m" unfolding m_def by linarith
  then have p: "0 < m - 1" by simp
  have k1: "1 \<le> k" using p by (simp add: k_def bitlen_alt_def)
  have lo: "2 ^ nat (k - 1) \<le> m - 1" and hi: "m - 1 < 2 ^ nat k"
    using bitlen_bounds [OF p] by (simp_all add: k_def)
  have e: "exponent a = - k" using False by (simp add: exponent_def m_def k_def)
  from hi have "m \<le> 2 ^ nat k" by simp
  then have "of_int m \<le> (2::real) ^ nat k"
    by (metis of_int_le_iff of_int_numeral of_int_power)
  moreover have "1 / a \<le> of_int m" by (simp add: m_def)
  ultimately have "1 / a \<le> 2 ^ nat k" by linarith
  then have "1 \<le> 2 ^ nat k * a" using assms by (simp add: field_simps)
  then have l: "pow2 (exponent a) \<le> a" using k1 by (simp add: e pow2_def field_simps)
  have "(2::real) ^ nat (k - 1) \<le> of_int (m - 1)"
    using lo by (metis of_int_le_iff of_int_numeral of_int_power)
  moreover have "of_int (m - 1) < 1 / a" unfolding m_def by linarith
  ultimately have "2 ^ nat (k - 1) < 1 / a" by linarith
  then have "2 ^ nat (k - 1) * a < 1" using assms by (simp add: field_simps)
  then have u0: "a < 1 / 2 ^ nat (k - 1)" by (simp add: field_simps)
  have u: "a < pow2 (exponent a + 1)"
  proof (cases "k = 1")
    case True
    with u0 show ?thesis by (simp add: e pow2_def)
  next
    case False
    with k1 have "1 < k" by simp
    then have "pow2 (- k + 1) = 1 / 2 ^ nat (k - 1)"
      unfolding pow2_def by (auto intro: arg_cong [where f = "\<lambda>n. 1 / (2::real) ^ nat n"])
    with u0 show ?thesis by (simp only: e)
  qed
  from l u show ?thesis ..
qed

lemma pow2_pos: "0 < pow2 e"
  by (simp add: pow2_def)

lemma roundEven_nearest: "\<bar>of_int (roundEven m) - m\<bar> \<le> 1 / 2"
  unfolding roundEven_def Let_def by (auto split: if_splits)

lemma binary64_error:
  "\<bar>binary64 x - x\<bar> \<le> pow2 (max (exponent \<bar>x\<bar>) (- 1022) - 52) / 2"
proof (cases "x = 0")
  case True
  then show ?thesis using pow2_pos [of "max (exponent \<bar>x\<bar>) (- 1022) - 52"] by (simp add: binary64_def)
next
  case False
  define u where "u = pow2 (max (exponent \<bar>x\<bar>) (- 1022) - 52)"
  define n where "n = roundEven (\<bar>x\<bar> / u)"
  have u: "0 < u" by (simp add: u_def pow2_pos)
  have b: "binary64 x = sgn x * of_int n * u"
    using False by (simp add: binary64_def Let_def u_def n_def)
  have "x = sgn x * (\<bar>x\<bar> / u) * u" using u by (simp add: sgn_mult_abs)
  then have "binary64 x - x = sgn x * (of_int n - \<bar>x\<bar> / u) * u"
    by (simp add: b algebra_simps)
  then have "\<bar>binary64 x - x\<bar> = \<bar>of_int n - \<bar>x\<bar> / u\<bar> * u"
    using False u by (simp add: abs_mult abs_sgn_eq)
  also have "\<dots> \<le> (1 / 2) * u"
    using roundEven_nearest [of "\<bar>x\<bar> / u"] u
    by (intro mult_right_mono) (simp_all add: n_def)
  finally show ?thesis by (simp add: u_def)
qed

text \<open>
  The rounding \<open>binary64\<close> on a familiar case: in double precision 0.1 + 0.2 is
  0.30000000000000004, the double \<open>1351079888211149 / 2 ^ 52\<close>.
\<close>

lemma binary64_tenth_plus_fifth:
  "binary64 (binary64 0.1 + binary64 0.2) = 1351079888211149 / 2 ^ 52
   \<and> binary64 (binary64 0.1 + binary64 0.2) \<noteq> binary64 0.3"
  by code_simp

text \<open>
  Claim C6 says that \<open>calculateSectionHeight\<close> returns that ceiling.  In the double precision
  of JavaScript it does not always: for four cards, a section that is not the last and the
  fade zone 0.7, the hold time is rounded to 2.3200000000000003, the total height to
  4.470000000000001 and its product with 100 to 447.00000000000006, of which the ceiling
  is 448, where the formula gives the ceiling of 447, which is 447.
\<close>

theorem calculateSectionHeight_binary64_off_by_one:
  "cardLoop binary64 0 4 (binary64 PANEL_READING_HOLD) = 326510972984361 / 140737488355328
   \<and> calculateSectionHeight binary64
        \<lparr> opt_cardCount = Some 4, opt_isLastSection = Some False,
          opt_fadeZone = Some (binary64 0.7) \<rparr> = 448
   \<and> calculateSectionHeight exact
        \<lparr> opt_cardCount = Some 4, opt_isLastSection = Some False, opt_fadeZone = Some 0.7 \<rparr> = 447
   \<and> \<lceil>(2 * 0.7 + GREY_SPACE_BETWEEN + holdTime_spec 4 False) * 100\<rceil> = (447::int)"
  by code_simp

text \<open>
  Claim C3.  For every card count \<open>cardCount \<ge> 0\<close> and every viewport height
  \<open>windowHeight > 0\<close>, the fade zone that \<open>calculateFadeZones\<close> returns is strictly greater than
  the hold zone that it returns.
\<close>

theorem calculateFadeZones_order:
  "0 \<le> cardCount \<Longrightarrow> 0 < windowHeight \<Longrightarrow>
   holdZonePx (calculateFadeZones windowHeight cardCount)
     < fadeZonePx (calculateFadeZones windowHeight cardCount)"
  by (simp add: calculateFadeZones_def Let_def PANEL_FADE_OUT_def)

theorem calculateFadeZones_order_witness:
  "(0::int) \<le> 3 \<and> (0::real) < 800
   \<and> holdZonePx (calculateFadeZones 800 3) = 1632
   \<and> fadeZonePx (calculateFadeZones 800 3) = 1872
   \<and> holdZonePx (calculateFadeZones 800 3) < fadeZonePx (calculateFadeZones 800 3)"
  using calculateFadeZones_order [of 3 800]
  by (simp add: calculateFadeZones_def Let_def SCROLL_TIMING_defs)

lemma Math_round_mono: "x \<le> y \<Longrightarrow> Math_round x \<le> Math_round y"
  unfolding Math_round_def by (simp add: floor_mono)

lemma Math_round_step: "x + 1 \<le> y \<Longrightarrow> Math_round x < Math_round y"
  unfolding Math_round_def by linarith

lemma Math_round_gap: "\<bar>of_int (Math_round y - Math_round x) - (y - x)\<bar> < 1"
  unfolding Math_round_def by linarith

lemma pixelThreshold_closed:
  "0 \<le> i \<Longrightarrow> pixelThreshold wh i
     = wh * PANEL_READING_HOLD + of_int i * (wh * (CARD_FADE_DISTANCE + CARD_READING_HOLD))"
  by (cases "i = 0") (simp_all add: pixelThreshold_def Let_def algebra_simps)

lemma pixelThreshold_step:
  "0 \<le> i \<Longrightarrow> pixelThreshold wh (i + 1) - pixelThreshold wh i
     = wh * (CARD_FADE_DISTANCE + CARD_READING_HOLD)"
  by (simp add: pixelThreshold_closed algebra_simps)

text \<open>
  Claim C7, as stated: for every viewport height \<open>windowHeight > 0\<close> the thresholds that
  \<open>calculateCardThreshold\<close> returns are evenly spaced and strictly increasing in the card
  index.  The returned thresholds are rounded, and the claim fails on them: at a viewport
  height of 1 pixel the cards 0 and 1 have the same threshold, and at a viewport height of
  1080 pixels the thresholds of the cards 0, 1 and 2 are 302 and 303 pixels apart.
\<close>

theorem calculateCardThreshold_counterexample:
  "\<not> threshold (calculateCardThreshold 1 0) < threshold (calculateCardThreshold 1 1)
   \<and> threshold (calculateCardThreshold 1080 1) - threshold (calculateCardThreshold 1080 0)
       \<noteq> threshold (calculateCardThreshold 1080 2) - threshold (calculateCardThreshold 1080 1)"
  by (simp add: calculateCardThreshold_def pixelThreshold_def Math_round_def SCROLL_TIMING_defs)

text \<open>
  Claim C7, amended.  For every viewport height \<open>windowHeight > 0\<close> and every card index
  \<open>cardIndex \<ge> 0\<close>: the threshold of card 0 is the rounding of
  \<open>windowHeight * PANEL_READING_HOLD\<close>, and the threshold of card \<open>cardIndex\<close> is the rounding of
  that value plus \<open>cardIndex\<close> units of
  \<open>windowHeight * (CARD_FADE_DISTANCE + CARD_READING_HOLD)\<close>.  The reveal points before rounding
  are evenly spaced by that unit and strictly increasing.  The returned thresholds are
  non-decreasing in the card index, consecutive ones differ from the unit by less than one
  pixel, and they are strictly increasing whenever the unit is at least one pixel.
\<close>

theorem calculateCardThreshold_spacing:
  assumes "0 < windowHeight" and "0 \<le> cardIndex"
  shows "threshold (calculateCardThreshold windowHeight 0) = Math_round (windowHeight * PANEL_READING_HOLD)
    \<and> threshold (calculateCardThreshold windowHeight cardIndex)
        = Math_round (windowHeight * PANEL_READING_HOLD
            + of_int cardIndex * (windowHeight * (CARD_FADE_DISTANCE + CARD_READING_HOLD)))
    \<and> pixelThreshold windowHeight (cardIndex + 1) - pixelThreshold windowHeight cardIndex
        = windowHeight * (CARD_FADE_DISTANCE + CARD_READING_HOLD)
    \<and> pixelThreshold windowHeight cardIndex < pixelThreshold windowHeight (cardIndex + 1)
    \<and> threshold (calculateCardThreshold windowHeight cardIndex)
        \<le> threshold (calculateCardThreshold windowHeight (cardIndex + 1))
    \<and> \<bar>of_int (threshold (calculateCardThreshold windowHeight (cardIndex + 1))
              - threshold (calculateCardThreshold windowHeight cardIndex))
         - windowHeight * (CARD_FADE_DISTANCE + CARD_READING_HOLD)\<bar> < 1
    \<and> (1 \<le> windowHeight * (CARD_FADE_DISTANCE + CARD_READING_HOLD) \<longrightarrow>
         threshold (calculateCardThreshold windowHeight cardIndex)
           < threshold (calculateCardThreshold windowHeight (cardIndex + 1)))"
proof -
  let ?step = "windowHeight * (CARD_FADE_DISTANCE + CARD_READING_HOLD)"
  let ?p = "pixelThreshold windowHeight"
  have step_pos: "0 < ?step"
    using assms(1) by (simp add: SCROLL_TIMING_defs)
  have step: "?p (cardIndex + 1) - ?p cardIndex = ?step"
    using assms(2) by (rule pixelThreshold_step)
  have a: "threshold (calculateCardThreshold windowHeight 0) = Math_round (windowHeight * PANEL_READING_HOLD)"
    by (simp add: calculateCardThreshold_def pixelThreshold_def)
  have b: "threshold (calculateCardThreshold windowHeight cardIndex)
        = Math_round (windowHeight * PANEL_READING_HOLD + of_int cardIndex * ?step)"
    using assms(2) by (simp add: calculateCardThreshold_def pixelThreshold_closed)
  have c: "?p cardIndex < ?p (cardIndex + 1)"
    using step step_pos by linarith
  have d: "threshold (calculateCardThreshold windowHeight cardIndex)
        \<le> threshold (calculateCardThreshold windowHeight (cardIndex + 1))"
    using c by (simp add: calculateCardThreshold_def Math_round_mono)
  have e: "\<bar>of_int (threshold (calculateCardThreshold windowHeight (cardIndex + 1))
              - threshold (calculateCardThreshold windowHeight cardIndex)) - ?step\<bar> < 1"
    using Math_round_gap [of "?p (cardIndex + 1)" "?p cardIndex"] step
    by (simp add: calculateCardThreshold_def)
  have f: "threshold (calculateCardThreshold windowHeight cardIndex)
           < threshold (calculateCardThreshold windowHeight (cardIndex + 1))"
    if "1 \<le> ?step"
  proof -
    from that step have "?p cardIndex + 1 \<le> ?p (cardIndex + 1)" by linarith
    then show ?thesis by (simp add: calculateCardThreshold_def Math_round_step)
  qed
  from a b step c d e f show ?thesis by blast
qed

theorem calculateCardThreshold_spacing_witness:
  "(0::real) < 1080 \<and> (0::int) \<le> 1
   \<and> threshold (calculateCardThreshold 1080 0) = 1296
   \<and> threshold (calculateCardThreshold 1080 1) = 1598
   \<and> threshold (calculateCardThreshold 1080 2) = 1901
   \<and> (1::real) \<le> 1080 * (CARD_FADE_DISTANCE + CARD_READING_HOLD)
   \<and> threshold (calculateCardThreshold 1080 1) < threshold (calculateCardThreshold 1080 2)"
  using calculateCardThreshold_spacing [of 1080 1]
  by (simp add: calculateCardThreshold_def pixelThreshold_def Math_round_def SCROLL_TIMING_defs)

section \<open>Properties of the schema validator\<close>

lemma filter_validateLayer:
  "filter (isDepthErrorOf i j) (validateLayer i' j' l)
     = (if i' = i \<and> j' = j then depthErrors i j l else [])"
  by (auto simp: validateLayer_def depthErrors_def split: option.splits)

lemma filter_validateLayers:
  "filter (isDepthErrorOf i j) (validateLayers i' j0 ls)
     = (if i' = i \<and> j0 \<le> j \<and> j - j0 < length ls then depthErrors i j (ls ! (j - j0)) else [])"
proof (induction ls arbitrary: j0)
  case Nil
  then show ?case by simp
next
  case (Cons l ls)
  show ?case
  proof (cases "i' = i \<and> j0 = j")
    case True
    with Cons.IH [of "Suc j0"] show ?thesis
      by (simp add: filter_validateLayer)
  next
    case False
    with Cons.IH [of "Suc j0"] show ?thesis
      by (auto simp: filter_validateLayer Suc_diff_le nth_Cons')
  qed
qed

lemma filter_validateSection:
  "filter (isDepthErrorOf i j) (validateSection i' s)
     = (if i' = i then (case sec_layers s of None \<Rightarrow> []
          | Some ls \<Rightarrow> if j < length ls then depthErrors i j (ls ! j) else []) else [])"
  by (simp add: validateSection_def filter_validateLayers split: option.splits)

lemma filter_validateSections:
  "filter (isDepthErrorOf i j) (validateSections i0 ss)
     = (if i0 \<le> i \<and> i - i0 < length ss
        then (case sec_layers (ss ! (i - i0)) of None \<Rightarrow> []
          | Some ls \<Rightarrow> if j < length ls then depthErrors i j (ls ! j) else [])
        else [])"
proof (induction ss arbitrary: i0)
  case Nil
  then show ?case by simp
next
  case (Cons s ss)
  show ?case
  proof (cases "i0 = i")
    case True
    with Cons.IH [of "Suc i0"] show ?thesis
      by (simp add: filter_validateSection)
  next
    case False
    with Cons.IH [of "Suc i0"] show ?thesis
      by (auto simp: filter_validateSection Suc_diff_le nth_Cons')
  qed
qed

lemma filter_validateSchema:
  "filter (isDepthErrorOf i j) (errors (validateSchema schema))
     = (case layerAt schema i j of None \<Rightarrow> [] | Some l \<Rightarrow> depthErrors i j l)"
  by (simp add: validateSchema_def layerAt_def filter_validateSections Let_def split: option.splits)

lemma valid_iff: "valid (validateSchema schema) \<longleftrightarrow> errors (validateSchema schema) = []"
  by (simp add: validateSchema_def Let_def split: option.splits)

lemmas example_defs =
  sceneOf_def sectionOf_def exampleHero_def backgroundLayer_def shipLayer_def validateSchema_def
  validateSection_def validateLayer_def truthy_def layerAt_def Let_def

text \<open>
  Claim C1.  For every scene, a layer whose depth \<open>z\<close> is greater than 50 makes
  \<open>validateSchema\<close> return \<open>valid = False\<close>, and the errors contain exactly one depth error for
  that layer, which carries the index of its section and its own index.  A scene that is
  accepted as valid has no layer with a depth greater than 50.
\<close>

theorem validateSchema_depth_ceiling:
  "(layerAt schema idx layerIdx = Some l \<and> layer_z l = Some z \<and> 50 < z \<longrightarrow>
      \<not> valid (validateSchema schema) \<and>
      filter (isDepthErrorOf idx layerIdx) (errors (validateSchema schema))
        = [ZIndexExceeds idx layerIdx z])
   \<and> (valid (validateSchema schema) \<and> layerAt schema idx layerIdx = Some l \<and> layer_z l = Some z
        \<longrightarrow> z \<le> 50)"
proof -
  have key: "filter (isDepthErrorOf idx layerIdx) (errors (validateSchema schema))
        = [ZIndexExceeds idx layerIdx z]"
    if "layerAt schema idx layerIdx = Some l" "layer_z l = Some z" "50 < z"
    using that by (simp add: filter_validateSchema depthErrors_def)
  have inv: "\<not> valid (validateSchema schema)"
    if "layerAt schema idx layerIdx = Some l" "layer_z l = Some z" "50 < z"
  proof
    assume "valid (validateSchema schema)"
    then have "errors (validateSchema schema) = []" by (simp add: valid_iff)
    with key [OF that] show False by simp
  qed
  from key inv show ?thesis by (meson not_le)
qed

theorem validateSchema_depth_ceiling_witness:
  "layerAt (sceneOf [backgroundLayer, shipLayer (Some 51) None None]) 0 1
      = Some (shipLayer (Some 51) None None)
   \<and> layer_z (shipLayer (Some 51) None None) = Some 51 \<and> (50::real) < 51
   \<and> \<not> valid (validateSchema (sceneOf [backgroundLayer, shipLayer (Some 51) None None]))
   \<and> filter (isDepthErrorOf 0 1)
         (errors (validateSchema (sceneOf [backgroundLayer, shipLayer (Some 51) None None])))
       = [ZIndexExceeds 0 1 51]
   \<and> errors (validateSchema (sceneOf [backgroundLayer, shipLayer (Some 51) None None]))
       = [ZIndexExceeds 0 1 51]
   \<and> valid (validateSchema (sceneOf [backgroundLayer, shipLayer (Some 50) None None]))
   \<and> layerAt (sceneOf [backgroundLayer, shipLayer (Some 50) None None]) 0 1
      = Some (shipLayer (Some 50) None None)
   \<and> layer_z (shipLayer (Some 50) None None) = Some 50"
  using validateSchema_depth_ceiling
      [of "sceneOf [backgroundLayer, shipLayer (Some 51) None None]" 0 1
          "shipLayer (Some 51) None None" 51]
    validateSchema_depth_ceiling
      [of "sceneOf [backgroundLayer, shipLayer (Some 50) None None]" 0 1
          "shipLayer (Some 50) None None" 50]
  by (simp add: example_defs)

text \<open>
  Claim C9.  The depth check of \<open>validateSchema\<close> fires only for a layer whose \<open>z\<close> is present
  and greater than 50: the errors contain the depth error of a layer exactly when the scene
  has that layer with such a \<open>z\<close>.  A layer that omits \<open>z\<close> produces no depth error, and there
  is a scene that is accepted as valid although one of its layers declares no depth.
\<close>

theorem validateSchema_absent_depth:
  "(ZIndexExceeds idx layerIdx z \<in> set (errors (validateSchema schema)) \<longleftrightarrow>
      (\<exists>l. layerAt schema idx layerIdx = Some l \<and> layer_z l = Some z \<and> 50 < z))
   \<and> (layerAt schema idx layerIdx = Some l \<and> layer_z l = None \<longrightarrow>
        filter (isDepthErrorOf idx layerIdx) (errors (validateSchema schema)) = [])
   \<and> (\<exists>scene l0. valid (validateSchema scene) \<and> layerAt scene 0 1 = Some l0 \<and> layer_z l0 = None)"
proof -
  let ?errs = "errors (validateSchema schema)"
  have "ZIndexExceeds idx layerIdx z \<in> set ?errs
      \<longleftrightarrow> ZIndexExceeds idx layerIdx z \<in> set (filter (isDepthErrorOf idx layerIdx) ?errs)"
    by simp
  also have "\<dots> \<longleftrightarrow> (\<exists>l. layerAt schema idx layerIdx = Some l \<and> layer_z l = Some z \<and> 50 < z)"
  proof (cases "layerAt schema idx layerIdx")
    case None
    then show ?thesis by (simp add: filter_validateSchema)
  next
    case (Some l')
    then show ?thesis
      by (cases "layer_z l'") (auto simp: filter_validateSchema depthErrors_def)
  qed
  finally have a: "ZIndexExceeds idx layerIdx z \<in> set ?errs
      \<longleftrightarrow> (\<exists>l. layerAt schema idx layerIdx = Some l \<and> layer_z l = Some z \<and> 50 < z)" .
  have b: "layerAt schema idx layerIdx = Some l \<and> layer_z l = None \<longrightarrow>
        filter (isDepthErrorOf idx layerIdx) ?errs = []"
    by (simp add: filter_validateSchema depthErrors_def)
  have "valid (validateSchema (sceneOf [backgroundLayer, shipLayer None None None]))
      \<and> layerAt (sceneOf [backgroundLayer, shipLayer None None None]) 0 1
          = Some (shipLayer None None None)
      \<and> layer_z (shipLayer None None None) = None"
    by (simp add: example_defs)
  then have c: "\<exists>scene l0. valid (validateSchema scene) \<and> layerAt scene 0 1 = Some l0 \<and> layer_z l0 = None"
    by blast
  from a b c show ?thesis by blast
qed

theorem validateSchema_absent_depth_witness:
  "layerAt (sceneOf [backgroundLayer, shipLayer None None None]) 0 1 = Some (shipLayer None None None)
   \<and> layer_z (shipLayer None None None) = None
   \<and> filter (isDepthErrorOf 0 1)
        (errors (validateSchema (sceneOf [backgroundLayer, shipLayer None None None]))) = []
   \<and> valid (validateSchema (sceneOf [backgroundLayer, shipLayer None None None]))"
  using validateSchema_absent_depth
      [of 0 1 51 "sceneOf [backgroundLayer, shipLayer None None None]" "shipLayer None None None"]
  by (simp add: example_defs)

section \<open>Properties of the overlap detector\<close>

text \<open>
  Claim C8.  For all bounding boxes \<open>box1\<close> and \<open>box2\<close>, \<open>boxesOverlap box1 box2\<close> is true exactly
  when the boxes are not separated on either axis: not (\<open>right1 < left2\<close> or \<open>left1 > right2\<close> or
  \<open>bottom1 < top2\<close> or \<open>top1 > bottom2\<close>).  This holds with the comparisons of JavaScript, which
  are false on NaN, and for boxes whose edges are real numbers with the order of the reals.
\<close>

theorem boxesOverlap_spec:
  "(boxesOverlap box1 box2 \<longleftrightarrow>
      \<not> (num_lt (box_right box1) (box_left box2) \<or> num_gt (box_left box1) (box_right box2) \<or>
         num_lt (box_bottom box1) (box_top box2) \<or> num_gt (box_top box1) (box_bottom box2)))
   \<and> (boxesOverlap
        \<lparr> box_top = Num top1, box_right = Num right1, box_bottom = Num bottom1,
          box_left = Num left1, box_width = w1, box_height = h1 \<rparr>
        \<lparr> box_top = Num top2, box_right = Num right2, box_bottom = Num bottom2,
          box_left = Num left2, box_width = w2, box_height = h2 \<rparr>
      \<longleftrightarrow> \<not> (right1 < left2 \<or> left1 > right2 \<or> bottom1 < top2 \<or> top1 > bottom2))"
  by (simp add: boxesOverlap_def)

theorem boxesOverlap_spec_witness:
  "boxesOverlap exampleHeroBox shipBox
   \<and> \<not> boxesOverlap
        \<lparr> box_top = Num 0, box_right = Num 10, box_bottom = Num 10, box_left = Num 0,
          box_width = Num 10, box_height = Num 10 \<rparr>
        \<lparr> box_top = Num 0, box_right = Num 30, box_bottom = Num 10, box_left = Num 20,
          box_width = Num 10, box_height = Num 10 \<rparr>
   \<and> boxesOverlap
        \<lparr> box_top = Num 0, box_right = Num 10, box_bottom = Num 10, box_left = Num 0,
          box_width = Num 10, box_height = Num 10 \<rparr>
        \<lparr> box_top = Num 10, box_right = Num 20, box_bottom = Num 20, box_left = Num 10,
          box_width = Num 10, box_height = Num 10 \<rparr>"
  using boxesOverlap_spec [of exampleHeroBox shipBox]
    boxesOverlap_spec [of _ _ 0 10 10 0 "Num 10" "Num 10" 0 30 10 20 "Num 10" "Num 10"]
    boxesOverlap_spec [of _ _ 0 10 10 0 "Num 10" "Num 10" 10 20 20 10 "Num 10" "Num 10"]
  by (simp add: exampleHeroBox_def shipBox_def)

text \<open>
  For boxes with real edges and non-negative extent, the test is the geometric one: the
  boxes overlap exactly when they have a point in common.
\<close>

lemma boxesOverlap_common_point:
  assumes "left1 \<le> right1" "top1 \<le> bottom1" "left2 \<le> right2" "top2 \<le> bottom2"
  shows "boxesOverlap
        \<lparr> box_top = Num top1, box_right = Num right1, box_bottom = Num bottom1,
          box_left = Num left1, box_width = w1, box_height = h1 \<rparr>
        \<lparr> box_top = Num top2, box_right = Num right2, box_bottom = Num bottom2,
          box_left = Num left2, box_width = w2, box_height = h2 \<rparr>
     \<longleftrightarrow> (\<exists>x y. left1 \<le> x \<and> x \<le> right1 \<and> top1 \<le> y \<and> y \<le> bottom1
               \<and> left2 \<le> x \<and> x \<le> right2 \<and> top2 \<le> y \<and> y \<le> bottom2)"
proof
  assume ov: "boxesOverlap
        \<lparr> box_top = Num top1, box_right = Num right1, box_bottom = Num bottom1,
          box_left = Num left1, box_width = w1, box_height = h1 \<rparr>
        \<lparr> box_top = Num top2, box_right = Num right2, box_bottom = Num bottom2,
          box_left = Num left2, box_width = w2, box_height = h2 \<rparr>"
  then have "left2 \<le> right1" "left1 \<le> right2" "top2 \<le> bottom1" "top1 \<le> bottom2"
    by (simp_all add: boxesOverlap_def)
  with assms have "left1 \<le> max left1 left2 \<and> max left1 left2 \<le> right1
      \<and> top1 \<le> max top1 top2 \<and> max top1 top2 \<le> bottom1
      \<and> left2 \<le> max left1 left2 \<and> max left1 left2 \<le> right2
      \<and> top2 \<le> max top1 top2 \<and> max top1 top2 \<le> bottom2"
    by simp
  then show "\<exists>x y. left1 \<le> x \<and> x \<le> right1 \<and> top1 \<le> y \<and> y \<le> bottom1
               \<and> left2 \<le> x \<and> x \<le> right2 \<and> top2 \<le> y \<and> y \<le> bottom2"
    by blast
next
  assume "\<exists>x y. left1 \<le> x \<and> x \<le> right1 \<and> top1 \<le> y \<and> y \<le> bottom1
               \<and> left2 \<le> x \<and> x \<le> right2 \<and> top2 \<le> y \<and> y \<le> bottom2"
  then obtain x y where "left1 \<le> x" "x \<le> right1" "top1 \<le> y" "y \<le> bottom1"
      "left2 \<le> x" "x \<le> right2" "top2 \<le> y" "y \<le> bottom2"
    by blast
  then show "boxesOverlap
        \<lparr> box_top = Num top1, box_right = Num right1, box_bottom = Num bottom1,
          box_left = Num left1, box_width = w1, box_height = h1 \<rparr>
        \<lparr> box_top = Num top2, box_right = Num right2, box_bottom = Num bottom2,
          box_left = Num left2, box_width = w2, box_height = h2 \<rparr>"
    by (simp add: boxesOverlap_def)
qed

lemma parsePosition_truthy: "truthy v \<Longrightarrow> parsePosition w v c = None \<longleftrightarrow> False"
  by (simp add: parsePosition_def Let_def)

lemma assignEdges_top:
  "b_top (assignEdges vw vh wd ht t b l r) = None \<longleftrightarrow> t = None \<and> b = None"
  by (cases t; cases b; cases l; cases r) (simp_all add: assignEdges_def Let_def)

lemma assignEdges_left:
  "b_left (assignEdges vw vh wd ht t b l r) = None \<longleftrightarrow> l = None \<and> r = None"
  by (cases t; cases b; cases l; cases r) (simp_all add: assignEdges_def Let_def)

lemma calculateImageBounds_None:
  "calculateImageBounds w p sz = None \<longleftrightarrow> \<not> verticalEdge p \<or> \<not> horizontalEdge p"
proof -
  define t where "t = (if truthy (pos_top p) then parsePosition w (pos_top p) (innerHeight w) else None)"
  define b where "b = (if truthy (pos_bottom p) then parsePosition w (pos_bottom p) (innerHeight w) else None)"
  define l where "l = (if truthy (pos_left p) then parsePosition w (pos_left p) (innerWidth w) else None)"
  define r where "r = (if truthy (pos_right p) then parsePosition w (pos_right p) (innerWidth w) else None)"
  have t: "t = None \<longleftrightarrow> \<not> truthy (pos_top p)"
    by (simp add: t_def parsePosition_truthy)
  have b: "b = None \<longleftrightarrow> \<not> truthy (pos_bottom p)"
    by (simp add: b_def parsePosition_truthy)
  have l: "l = None \<longleftrightarrow> \<not> truthy (pos_left p)"
    by (simp add: l_def parsePosition_truthy)
  have r: "r = None \<longleftrightarrow> \<not> truthy (pos_right p)"
    by (simp add: r_def parsePosition_truthy)
  obtain wd ht where
    "calculateImageBounds w p sz =
       (if b_top (assignEdges (innerWidth w) (innerHeight w) wd ht t b l r) \<noteq> None
           \<and> b_left (assignEdges (innerWidth w) (innerHeight w) wd ht t b l r) \<noteq> None
        then Some (toBox (assignEdges (innerWidth w) (innerHeight w) wd ht t b l r)) else None)"
    unfolding calculateImageBounds_def Let_def t_def b_def l_def r_def by blast
  then have "calculateImageBounds w p sz = None \<longleftrightarrow>
      b_top (assignEdges (innerWidth w) (innerHeight w) wd ht t b l r) = None
      \<or> b_left (assignEdges (innerWidth w) (innerHeight w) wd ht t b l r) = None"
    by (simp del: not_None_eq)
  then show ?thesis
    by (auto simp: assignEdges_top assignEdges_left t b l r verticalEdge_def horizontalEdge_def)
qed

lemma calculateImageBounds_Some:
  "calculateImageBounds w p sz = Some ib \<Longrightarrow> verticalEdge p \<and> horizontalEdge p"
  using calculateImageBounds_None [of w p sz] by auto

lemma checkLayer_overlap:
  "filter (isOverlapWarningOf idx) (checkLayer w hb i l)
     = (if i = idx \<and> layer_type l = Some ''image'' \<and> layer_position l \<noteq> None
        then (case calculateImageBounds w (the (layer_position l)) (layer_size l) of
                None \<Rightarrow> []
              | Some ib \<Rightarrow> if boxesOverlap hb ib then [OverlapWarning idx (layer_src l) hb ib] else [])
        else [])"
  unfolding checkLayer_def
  by (auto simp: if_distrib [of "filter (isOverlapWarningOf idx)"]
        option.case_distrib [of "filter (isOverlapWarningOf idx)"] split: option.splits)

lemma filter_checkLayer:
  "i \<noteq> idx \<Longrightarrow> filter (isOverlapWarningOf idx) (checkLayer w hb i l) = []"
  by (simp add: checkLayer_overlap)

lemma filter_checkLayers:
  "filter (isOverlapWarningOf idx) (checkLayers w hb i0 ls)
     = (if i0 \<le> idx \<and> idx - i0 < length ls
        then filter (isOverlapWarningOf idx) (checkLayer w hb idx (ls ! (idx - i0))) else [])"
proof (induction ls arbitrary: i0)
  case Nil
  then show ?case by simp
next
  case (Cons l ls)
  show ?case
  proof (cases "i0 = idx")
    case True
    with Cons.IH [of "Suc i0"] show ?thesis
      by simp
  next
    case False
    with Cons.IH [of "Suc i0"] filter_checkLayer [of i0 idx w hb l] show ?thesis
      by (auto simp: Suc_diff_le nth_Cons')
  qed
qed

text \<open>
  Claim C10.  \<open>validateHeroOverlap\<close> emits no overlap warning for an image layer whose box
  cannot be resolved: when the position of the layer declares no vertical edge (neither
  \<open>top\<close> nor \<open>bottom\<close>) or no horizontal edge (neither \<open>left\<close> nor \<open>right\<close>),
  \<open>calculateImageBounds\<close> returns \<open>null\<close> and the layer is skipped.  An overlap warning is
  emitted for the layer at an index exactly when that layer is an image with a position
  that declares an edge on both axes and its derived box overlaps the box of the hero text.
\<close>

theorem validateHeroOverlap_unresolved_skipped:
  assumes "validateHeroOverlap w s = Inr res"
    and "sec_hero s = Some hero" and "calculateHeroBounds w hero = Inr heroBounds"
    and "sec_layers s = Some ls"
  shows "(idx < length ls \<and> layer_position (ls ! idx) = Some p
            \<and> (\<not> verticalEdge p \<or> \<not> horizontalEdge p) \<longrightarrow>
          calculateImageBounds w p (layer_size (ls ! idx)) = None
          \<and> filter (isOverlapWarningOf idx) (warnings res) = [])
       \<and> ((\<exists>x \<in> set (warnings res). isOverlapWarningOf idx x) \<longleftrightarrow>
           idx < length ls \<and> layer_type (ls ! idx) = Some ''image''
           \<and> (\<exists>p ib. layer_position (ls ! idx) = Some p \<and> verticalEdge p \<and> horizontalEdge p
                 \<and> calculateImageBounds w p (layer_size (ls ! idx)) = Some ib
                 \<and> boxesOverlap heroBounds ib))"
proof -
  have ws: "warnings res = checkLayers w heroBounds 0 ls"
    using assms by (auto simp: validateHeroOverlap_def Let_def)
  have flt: "filter (isOverlapWarningOf idx) (warnings res)
      = (if idx < length ls
         then filter (isOverlapWarningOf idx) (checkLayer w heroBounds idx (ls ! idx)) else [])"
    by (simp add: ws filter_checkLayers)
  have one: "calculateImageBounds w p (layer_size (ls ! idx)) = None
          \<and> filter (isOverlapWarningOf idx) (warnings res) = []"
    if "idx < length ls" "layer_position (ls ! idx) = Some p" "\<not> verticalEdge p \<or> \<not> horizontalEdge p"
    using that calculateImageBounds_None [of w p "layer_size (ls ! idx)"]
    by (simp add: flt checkLayer_overlap [of idx w heroBounds idx])
  have "(\<exists>x \<in> set (warnings res). isOverlapWarningOf idx x)
      \<longleftrightarrow> filter (isOverlapWarningOf idx) (warnings res) \<noteq> []"
    by (simp add: filter_empty_conv)
  also have "\<dots> \<longleftrightarrow> idx < length ls \<and> layer_type (ls ! idx) = Some ''image''
           \<and> (\<exists>p ib. layer_position (ls ! idx) = Some p \<and> verticalEdge p \<and> horizontalEdge p
                 \<and> calculateImageBounds w p (layer_size (ls ! idx)) = Some ib
                 \<and> boxesOverlap heroBounds ib)"
    by (auto simp: flt checkLayer_overlap split: option.splits dest: calculateImageBounds_Some)
  finally show ?thesis using one by blast
qed

lemmas overlap_example_defs =
  validateHeroOverlap_def calculateHeroBounds_def sectionOf_def exampleHero_def exampleBrowser_def
  exampleLayers_def backgroundLayer_def shipLayer_def checkLayer_def calculateImageBounds_def
  assignEdges_def parsePosition_def truthy_def endsWith_def boxesOverlap_def toBox_def ofNull_def
  ofUndefined_def verticalEdge_def horizontalEdge_def shipPosition_def shipSize_def
  leftOnlyPosition_def exampleHeroBox_def shipBox_def Let_def

theorem validateHeroOverlap_unresolved_skipped_witness:
  "validateHeroOverlap exampleBrowser (sectionOf exampleLayers)
     = Inr \<lparr> ov_valid = False,
             warnings = [OverlapWarning 1 (Some ''ship-images/paper-ship-square.png'')
                           exampleHeroBox shipBox] \<rparr>
   \<and> sec_hero (sectionOf exampleLayers) = Some exampleHero
   \<and> calculateHeroBounds exampleBrowser exampleHero = Inr exampleHeroBox
   \<and> sec_layers (sectionOf exampleLayers) = Some exampleLayers
   \<and> layer_position (exampleLayers ! 2) = Some leftOnlyPosition
   \<and> \<not> verticalEdge leftOnlyPosition
   \<and> calculateImageBounds exampleBrowser leftOnlyPosition (layer_size (exampleLayers ! 2)) = None
   \<and> layer_position (exampleLayers ! 1) = Some shipPosition
   \<and> verticalEdge shipPosition \<and> horizontalEdge shipPosition
   \<and> calculateImageBounds exampleBrowser shipPosition (layer_size (exampleLayers ! 1)) = Some shipBox
   \<and> boxesOverlap exampleHeroBox shipBox"
  using validateHeroOverlap_unresolved_skipped
      [of exampleBrowser "sectionOf exampleLayers"
          "\<lparr> ov_valid = False,
             warnings = [OverlapWarning 1 (Some ''ship-images/paper-ship-square.png'')
                           exampleHeroBox shipBox] \<rparr>"
          exampleHero exampleHeroBox exampleLayers 2 leftOnlyPosition]
    validateHeroOverlap_unresolved_skipped
      [of exampleBrowser "sectionOf exampleLayers"
          "\<lparr> ov_valid = False,
             warnings = [OverlapWarning 1 (Some ''ship-images/paper-ship-square.png'')
                           exampleHeroBox shipBox] \<rparr>"
          exampleHero exampleHeroBox exampleLayers 1 shipPosition]
  by (simp add: overlap_example_defs)

section \<open>Properties of the scroll visibility controller\<close>

lemma updateSection_opacity:
  "\<not> (rect_bottom r < 0 \<or> rect_top r > wh) \<Longrightarrow>
   dom_opacity (updateSection wh fz el r st)
     = max 0 (min 1 (opacityOf (holdZonePx (sectionZones wh fz el)) (fadeZonePx (sectionZones wh fz el))
                        (sectionDistance wh r)))"
  by (simp add: updateSection_def Let_def)

text \<open>
  Claim C2.  For every section whose resolved hold zone is strictly less than its resolved
  fade zone, the opacity that a tick computes for a section in view is 1 when the distance
  is below the hold zone, \<open>1 - (distance - holdZone) / (fadeZone - holdZone)\<close> when the distance
  is at least the hold zone and below the fade zone, and 0 when the distance is at least
  the fade zone; the value applied is that opacity clamped to the interval from 0 to 1.  In
  particular the opacity is 1 at the hold zone, 0 at the fade zone, and 0.5 half way
  between them.
\<close>

theorem opacity_policy:
  assumes "holdZonePx (sectionZones wh fz el) < fadeZonePx (sectionZones wh fz el)"
    and "\<not> (rect_bottom r < 0 \<or> rect_top r > wh)"
  shows "let h = holdZonePx (sectionZones wh fz el);
             f = fadeZonePx (sectionZones wh fz el);
             d = sectionDistance wh r;
             applied = dom_opacity (updateSection wh fz el r st)
         in (d < h \<longrightarrow> opacityOf h f d = 1)
          \<and> (h \<le> d \<and> d < f \<longrightarrow> opacityOf h f d = 1 - (d - h) / (f - h))
          \<and> (f \<le> d \<longrightarrow> opacityOf h f d = 0)
          \<and> applied = max 0 (min 1 (opacityOf h f d))
          \<and> 0 \<le> applied \<and> applied \<le> 1
          \<and> opacityOf h f h = 1
          \<and> opacityOf h f f = 0
          \<and> opacityOf h f ((h + f) / 2) = 0.5"
proof -
  define h where "h = holdZonePx (sectionZones wh fz el)"
  define f where "f = fadeZonePx (sectionZones wh fz el)"
  define d where "d = sectionDistance wh r"
  have hf: "h < f" using assms(1) by (simp add: h_def f_def)
  have a: "d < h \<longrightarrow> opacityOf h f d = 1" by (simp add: opacityOf_def)
  have b: "h \<le> d \<and> d < f \<longrightarrow> opacityOf h f d = 1 - (d - h) / (f - h)"
    by (simp add: opacityOf_def)
  have c: "f \<le> d \<longrightarrow> opacityOf h f d = 0" using hf by (auto simp: opacityOf_def)
  have e: "dom_opacity (updateSection wh fz el r st) = max 0 (min 1 (opacityOf h f d))"
    using updateSection_opacity [OF assms(2)] by (simp add: h_def f_def d_def)
  have g: "opacityOf h f h = 1" using hf by (simp add: opacityOf_def)
  have i: "opacityOf h f f = 0" using hf by (simp add: opacityOf_def)
  have "(h + f) / 2 - h = (f - h) / 2" by (simp add: field_simps)
  then have "((h + f) / 2 - h) / (f - h) = 1 / 2" using hf by simp
  moreover have "\<not> (h + f) / 2 < h" "(h + f) / 2 < f" using hf by simp_all
  ultimately have j: "opacityOf h f ((h + f) / 2) = 0.5" by (simp add: opacityOf_def)
  have k: "0 \<le> max 0 (min 1 (opacityOf h f d))" "max 0 (min 1 (opacityOf h f d)) \<le> 1" by simp_all
  show ?thesis
    unfolding Let_def h_def [symmetric] f_def [symmetric] d_def [symmetric]
    using a b c e g i j k by simp
qed

theorem opacity_policy_witness:
  "holdZonePx (sectionZones 800 0.7 exampleElement) = 320
   \<and> fadeZonePx (sectionZones 800 0.7 exampleElement) = 560
   \<and> holdZonePx (sectionZones 800 0.7 exampleElement) < fadeZonePx (sectionZones 800 0.7 exampleElement)
   \<and> \<not> (rect_bottom \<lparr> rect_top = - 500, rect_bottom = 2180, rect_height = 2680 \<rparr> < 0
         \<or> rect_top \<lparr> rect_top = - 500, rect_bottom = 2180, rect_height = 2680 \<rparr> > 800)
   \<and> sectionDistance 800 \<lparr> rect_top = - 500, rect_bottom = 2180, rect_height = 2680 \<rparr> = 440
   \<and> dom_opacity (updateSection 800 0.7 exampleElement
         \<lparr> rect_top = - 500, rect_bottom = 2180, rect_height = 2680 \<rparr>
         \<lparr> dom_display = DisplayUnset, dom_opacity = 0, dom_visuals = [] \<rparr>) = 0.5"
  using opacity_policy [of 800 "0.7" exampleElement
      "\<lparr> rect_top = - 500, rect_bottom = 2180, rect_height = 2680 \<rparr>"
      "\<lparr> dom_display = DisplayUnset, dom_opacity = 0, dom_visuals = [] \<rparr>"]
  by (simp add: sectionZones_def sectionDistance_def Let_def)

text \<open>
  Claim C4 says that the zones of a section depend on the \<open>ScrollConfig\<close> that the section
  declares.  In the code they do not: \<open>buildSection\<close> copies only the identifier and the
  height of a section into its container, and the tick computes the zones from the viewport
  height and the parameter of \<open>setupScrollBehavior\<close> alone.  Two sections that declare the fade
  zones 0.5 and 0.9 get the same container and the same zones, 320 and 560 pixels in a
  viewport of 800 pixels with the default 0.7, where they declare 400 and 720 pixels.
\<close>

theorem sectionZones_ignore_scroll_config:
  "buildSection sectionFade05 = Inr exampleElement
   \<and> buildSection sectionFade09 = Inr exampleElement
   \<and> declaredFadeZonePx 800 sectionFade05 = Some 400
   \<and> declaredFadeZonePx 800 sectionFade09 = Some 720
   \<and> sectionZones 800 0.7 exampleElement = \<lparr> holdZonePx = 320, fadeZonePx = 560 \<rparr>"
  by (simp add: sectionFade05_def sectionFade09_def sectionOf_def exampleHero_def buildSection_def
      exampleElement_def truthy_def declaredFadeZonePx_def sectionZones_def Let_def)

lemma sectionZones_any_element: "sectionZones wh fz el = sectionZones wh fz el'"
  by (simp add: sectionZones_def)

lemma updateVisual_timers:
  "vis_challengeCards vis \<Longrightarrow>
   exitTimers (updateVisual opacity vis)
     = exitTimers vis + (if opacity \<ge> 1 \<and> \<not> animationTriggered vis then 1 else 0)"
  by (simp add: updateVisual_def Let_def)

lemma updateVisual_flag:
  "vis_challengeCards vis \<Longrightarrow>
   animationTriggered (updateVisual opacity vis)
     = (if opacity \<ge> 1 then True else if opacity < 0.5 then False else animationTriggered vis)"
  by (auto simp: updateVisual_def Let_def)

lemma updateVisual_cards: "vis_challengeCards (updateVisual opacity vis) = vis_challengeCards vis"
  by (simp add: updateVisual_def Let_def)

lemma runVisual_below_one:
  "vis_challengeCards vis \<Longrightarrow> \<forall>opacity \<in> set os. opacity < 1 \<Longrightarrow>
   exitTimers (runVisual os vis) = exitTimers vis"
  by (induction os arbitrary: vis) (simp_all add: updateVisual_cards updateVisual_timers)

lemma runVisual_sticky:
  "vis_challengeCards vis \<Longrightarrow> animationTriggered vis \<Longrightarrow> \<forall>opacity \<in> set os. 0.5 \<le> opacity \<Longrightarrow>
   exitTimers (runVisual os vis) = exitTimers vis \<and> animationTriggered (runVisual os vis)"
proof (induction os arbitrary: vis)
  case Nil
  then show ?case by simp
next
  case (Cons opacity os)
  have "animationTriggered (updateVisual opacity vis)"
    using Cons.prems by (simp add: updateVisual_flag)
  moreover have "exitTimers (updateVisual opacity vis) = exitTimers vis"
    using Cons.prems by (simp add: updateVisual_timers)
  ultimately show ?case
    using Cons.IH [of "updateVisual opacity vis"] Cons.prems by (simp add: updateVisual_cards)
qed

lemma runVisual_at_most_once:
  "vis_challengeCards vis \<Longrightarrow> \<forall>opacity \<in> set os. 0.5 \<le> opacity \<Longrightarrow>
   exitTimers (runVisual os vis) \<le> exitTimers vis + 1"
proof (induction os arbitrary: vis)
  case Nil
  then show ?case by simp
next
  case (Cons opacity os)
  show ?case
  proof (cases "animationTriggered (updateVisual opacity vis)")
    case True
    then have "exitTimers (runVisual os (updateVisual opacity vis)) = exitTimers (updateVisual opacity vis)"
      using runVisual_sticky [of "updateVisual opacity vis" os] Cons.prems
      by (simp add: updateVisual_cards)
    then show ?thesis using Cons.prems by (simp add: updateVisual_timers)
  next
    case False
    then have "\<not> opacity \<ge> 1" using Cons.prems by (auto simp: updateVisual_flag split: if_splits)
    then have "exitTimers (updateVisual opacity vis) = exitTimers vis"
      using Cons.prems by (simp add: updateVisual_timers)
    then show ?thesis
      using Cons.IH [of "updateVisual opacity vis"] Cons.prems by (simp add: updateVisual_cards)
  qed
qed

text \<open>
  Claim C5, as stated: the reveal of a card is triggered only after the opacity of the
  section has reached 1 and the pixel threshold of that card is crossed.  The controller
  consults no threshold and keeps one flag for the whole container.  In a viewport of 800
  pixels the thresholds of the cards 0 and 3 are 960 and 1632 pixels; a tick with the
  section exactly at the centre of the viewport, at distance 0, sets the flag of a fresh
  container and schedules its exit timer.
\<close>

theorem cards_threshold_counterexample:
  "sectionDistance 800 centredRect = 0
   \<and> threshold (calculateCardThreshold 800 0) = 960
   \<and> threshold (calculateCardThreshold 800 3) = 1632
   \<and> \<not> of_int (threshold (calculateCardThreshold 800 0)) \<le> sectionDistance 800 centredRect
   \<and> dom_visuals (updateSection 800 0.7 exampleElement centredRect
        \<lparr> dom_display = DisplayUnset, dom_opacity = 0, dom_visuals = [exampleCards] \<rparr>)
      = [exampleCards \<lparr> vis_display := DisplayBlock, animationTriggered := True,
                        sectionActive := True, exitTimers := 1 \<rparr>]"
  by (simp add: centredRect_def exampleElement_def exampleCards_def updateSection_def
      sectionDistance_def sectionZones_def opacityOf_def updateVisual_def Let_def
      calculateCardThreshold_def pixelThreshold_def Math_round_def PANEL_READING_HOLD_def
      CARD_FADE_DISTANCE_def CARD_READING_HOLD_def)

text \<open>
  Claim C5, amended.  For every challenge-cards container, a tick triggers the reveal
  sequence of the container (it sets the one sticky flag of the container and schedules
  its exit timer) exactly when the opacity of the section at that tick is at least 1 and
  the flag is unset; no pixel threshold of a card is consulted.  After a tick the flag is
  set when the opacity was at least 1, cleared when the opacity was below 0.5, and
  unchanged otherwise.  Hence over ticks whose opacities are all below 1 the sequence is
  never triggered, and over ticks whose opacities are all at least 0.5 it is triggered at
  most once.
\<close>

theorem cards_trigger_amended:
  assumes "vis_challengeCards vis"
  shows "exitTimers (updateVisual opacity vis)
           = exitTimers vis + (if opacity \<ge> 1 \<and> \<not> animationTriggered vis then 1 else 0)
       \<and> animationTriggered (updateVisual opacity vis)
           = (if opacity \<ge> 1 then True else if opacity < 0.5 then False else animationTriggered vis)
       \<and> ((\<forall>opacity \<in> set os. opacity < 1) \<longrightarrow> exitTimers (runVisual os vis) = exitTimers vis)
       \<and> ((\<forall>opacity \<in> set os. 0.5 \<le> opacity) \<longrightarrow> exitTimers (runVisual os vis) \<le> exitTimers vis + 1)"
  using assms updateVisual_timers updateVisual_flag runVisual_below_one runVisual_at_most_once
  by blast

theorem cards_trigger_amended_witness:
  "vis_challengeCards exampleCards
   \<and> exitTimers (updateVisual 1 exampleCards) = 1 \<and> animationTriggered (updateVisual 1 exampleCards)
   \<and> (0::real) < 1 \<and> (0.3::real) < 1 \<and> (0.8::real) < 1
   \<and> exitTimers (runVisual [0, 0.3, 0.8] exampleCards) = 0
   \<and> (0.5::real) \<le> 0.6 \<and> (0.5::real) \<le> 1 \<and> (0.5::real) \<le> 0.7
   \<and> exitTimers (runVisual [0.6, 1, 1, 1, 0.7] exampleCards) = 1
   \<and> exitTimers (runVisual [1, 0.2, 1] exampleCards) = 2"
  using cards_trigger_amended [of exampleCards 1 "[0, 0.3, 0.8]"]
    cards_trigger_amended [of exampleCards 1 "[0.6, 1, 1, 1, 0.7]"]
  by (simp add: exampleCards_def updateVisual_def Let_def)

end
